theory Spec2Isabelle
  imports Complex_Main
begin

section \<open>The wardrobe server (server.js) as state-passing functions\<close>

text \<open>
  The server is a set of Express routes over two Mongoose collections. Each route is
  modelled as a function from the store, the request and the per-request environment
  (the clock, the salt drawn by bcrypt, the store operations that fail) to an outcome
  and the new store. Every \<^verbatim>\<open>throw\<close> of the source is a value \<open>Inl err\<close>; a
  \<^verbatim>\<open>try ... catch\<close> is a case distinction on it.

  \<^verbatim>\<open>req.body\<close> is \<^verbatim>\<open>undefined\<close> (\<open>None\<close>) when no body parser has set it, and
  otherwise an object whose fields are strings or absent; a field that is the empty
  string is present and falsy, as in JavaScript. Identifiers (Mongoose
  ObjectIds) are natural numbers drawn from a counter. The process configuration
  (\<^verbatim>\<open>process.env\<close>) is loaded: the token secret is a string.
\<close>

subsection \<open>Values\<close>

type_synonym oid = nat

datatype jsnum = NaN | NegInf | Fin rat | PosInf

datatype json =
    JNull
  | JBool bool
  | JNum jsnum
  | JStr string
  | JArr "json list"
  | JObj "(string \<times> json) list"

datatype js_error =
    TypeError string            \<comment> \<open>reading the named property of \<^verbatim>\<open>undefined\<close> or \<^verbatim>\<open>null\<close>\<close>
  | SyntaxError string          \<comment> \<open>raised by \<^verbatim>\<open>JSON.parse\<close>\<close>
  | ValidationError "string list" \<comment> \<open>Mongoose validation; the paths that failed\<close>
  | MongoError string           \<comment> \<open>a failure of the store layer\<close>
  | BcryptError                 \<comment> \<open>bcryptjs: illegal arguments\<close>
  | JsonWebTokenError string
  | TokenExpiredError
  | UploadError string          \<comment> \<open>multer or the media host\<close>

text \<open>The decoded payload of a token: \<^verbatim>\<open>{ id, iat, exp }\<close>, times in seconds.\<close>

record claim =
  claim_id :: oid
  claim_iat :: nat
  claim_exp :: nat

text \<open>
  A header value is either a string that is not a well-formed token, or a well-formed
  token: a payload signed under some secret (signatures are ideal: a token verifies
  under the secret it was signed with and under no other).
\<close>

datatype token = Raw string | Signed string claim

text \<open>
  What the \<^verbatim>\<open>password\<close> path of a user document holds: some literal text, or the
  digest bcrypt computed from a cost factor, a salt and a plaintext (hashing is ideal:
  the digest is not the plaintext and matches exactly the plaintext it was made from).
\<close>

datatype stored_string = Lit string | Bcrypt nat string string

subsection \<open>Schemas (server.js, lines 48-71)\<close>

record User =
  user_id :: oid
  firstName :: string
  lastName :: string
  email :: string
  password :: stored_string
  location :: string

record Item =
  item_id :: oid
  userId :: oid
  name :: string
  imageUrl :: string
  category :: string
  subCategory :: "string option"
  seasons :: "string list"
  color :: "string option"
  warmth :: jsnum
  isClean :: bool
  lastWorn :: "nat option"
  createdAt :: nat

subsection \<open>The store, the environment, requests and outcomes\<close>

datatype store_op =
  UserFindOne | UserSave | UserFindById | ItemCountDocuments | ItemSave | ItemFind

text \<open>\<open>trace\<close> lists the operations sent to the database, oldest first.\<close>

record state =
  users :: "User list"
  items :: "Item list"
  next_id :: oid
  trace :: "store_op list"

record config =
  jwt_secret :: string

record env =
  clock :: nat                              \<comment> \<open>\<^verbatim>\<open>Date.now()\<close>, in seconds\<close>
  salt :: string                            \<comment> \<open>the random salt \<^verbatim>\<open>bcrypt.genSalt\<close> draws\<close>
  fault :: "store_op \<Rightarrow> string option"       \<comment> \<open>the store operations that reject, with their message\<close>

text \<open>
  The language built-ins and the part of Mongoose's array caster that the schema does not
  determine are parameters of the model.
\<close>

record platform =
  JSON_parse :: "string \<Rightarrow> js_error + json"           \<comment> \<open>\<^verbatim>\<open>JSON.parse\<close>\<close>
  Number :: "string option \<Rightarrow> jsnum"                   \<comment> \<open>\<^verbatim>\<open>Number(x)\<close>, \<open>None\<close> is \<^verbatim>\<open>undefined\<close>\<close>
  cast_other :: "json \<Rightarrow> string list option"          \<comment> \<open>casting a value that is not an array of strings to \<^verbatim>\<open>[String]\<close>; \<open>None\<close> is a CastError\<close>

record request =
  x_auth_token :: "token option"            \<comment> \<open>\<^verbatim>\<open>req.header("x-auth-token")\<close>\<close>
  body :: "(string \<rightharpoonup> string) option"      \<comment> \<open>\<^verbatim>\<open>req.body\<close>; \<open>None\<close> is \<^verbatim>\<open>undefined\<close>\<close>
  image :: "js_error + string option"       \<comment> \<open>the image part as the upload middleware will find it: an upload failure, no such part, or the URL the media host returns\<close>
  user :: "claim option"                    \<comment> \<open>\<^verbatim>\<open>req.user\<close>\<close>
  req_file :: "string option"               \<comment> \<open>\<^verbatim>\<open>req.file.path\<close>\<close>

datatype body =
    Msg string                              \<comment> \<open>\<^verbatim>\<open>{ msg }\<close>\<close>
  | ErrorMessage js_error                   \<comment> \<open>\<^verbatim>\<open>{ error: err.message }\<close>\<close>
  | TokenBody token                         \<comment> \<open>\<^verbatim>\<open>{ token }\<close>\<close>
  | Stats string nat nat bool               \<comment> \<open>\<^verbatim>\<open>{ name, totalItems, dirtyItems, isNewUser }\<close>\<close>
  | ItemDoc Item
  | ItemDocs "Item list"

type_synonym response = "nat \<times> body"

text \<open>
  A route either sends a response, or its error leaves the application's own code
  (a rejected promise of the handler, or \<^verbatim>\<open>next(err)\<close> with no error middleware
  registered).
\<close>

datatype outcome = Responded response | Unhandled js_error

definition truthy :: "string option \<Rightarrow> bool" where
  "truthy v = (case v of None \<Rightarrow> False | Some s \<Rightarrow> s \<noteq> [])"

subsection \<open>Token issuer and verifier\<close>

text \<open>
  Modelled from the spec: the token library (jsonwebtoken) is not among the sources.
  \<open>issue\<close> gives a signed claim containing the identifier, signed with the process-wide
  secret, expiring the given number of seconds from issuance; \<open>verify\<close> fails on a
  malformed token, on a signature mismatch against the configured secret, and on an
  expired token. A token is valid before its expiration instant and expired from that
  instant on.
\<close>

definition expiresIn_30d :: nat where
  "expiresIn_30d = 30 * 24 * 60 * 60"

definition jwt_sign :: "oid \<Rightarrow> string \<Rightarrow> nat \<Rightarrow> nat \<Rightarrow> token" where
  "jwt_sign uid secret expiresIn now =
     Signed secret \<lparr>claim_id = uid, claim_iat = now, claim_exp = now + expiresIn\<rparr>"

definition jwt_verify :: "token \<Rightarrow> string \<Rightarrow> nat \<Rightarrow> js_error + claim" where
  "jwt_verify t secret now =
     (case t of
        Raw s \<Rightarrow> Inl (JsonWebTokenError ''jwt malformed'')
      | Signed k c \<Rightarrow>
          if k \<noteq> secret then Inl (JsonWebTokenError ''invalid signature'')
          else if claim_exp c \<le> now then Inl TokenExpiredError
          else Inr c)"

subsection \<open>Password hashing\<close>

text \<open>
  bcryptjs, as the handlers use it: \<^verbatim>\<open>genSalt(rounds)\<close> gives a salt that records the
  cost factor, \<^verbatim>\<open>hash\<close> gives the digest of a string under that salt, \<^verbatim>\<open>compare\<close>
  tells whether a string is the one a digest was made from. A password that is not a
  string is an illegal argument.
\<close>

definition bcrypt_genSalt :: "nat \<Rightarrow> string \<Rightarrow> nat \<times> string" where
  "bcrypt_genSalt rounds seed = (rounds, seed)"

definition bcrypt_hash :: "string option \<Rightarrow> nat \<times> string \<Rightarrow> js_error + stored_string" where
  "bcrypt_hash pw s =
     (case pw of
        None \<Rightarrow> Inl BcryptError
      | Some p \<Rightarrow> Inr (Bcrypt (fst s) (snd s) p))"

definition bcrypt_compare :: "string option \<Rightarrow> stored_string \<Rightarrow> js_error + bool" where
  "bcrypt_compare pw h =
     (case pw of
        None \<Rightarrow> Inl BcryptError
      | Some p \<Rightarrow> Inr (case h of Bcrypt r s q \<Rightarrow> p = q | Lit l \<Rightarrow> False))"

subsection \<open>Store operations\<close>

definition sent :: "store_op \<Rightarrow> state \<Rightarrow> state" where
  "sent op st = st\<lparr>trace := trace st @ [op]\<rparr>"

definition User_findOne :: "env \<Rightarrow> string option \<Rightarrow> state \<Rightarrow> (js_error + User option) \<times> state" where
  "User_findOne e mail st =
     (case fault e UserFindOne of
        Some m \<Rightarrow> (Inl (MongoError m), sent UserFindOne st)
      | None \<Rightarrow>
          (Inr (case mail of None \<Rightarrow> None | Some a \<Rightarrow> find (\<lambda>u. email u = a) (users st)),
           sent UserFindOne st))"

definition User_findById :: "env \<Rightarrow> oid \<Rightarrow> state \<Rightarrow> (js_error + User option) \<times> state" where
  "User_findById e uid st =
     (case fault e UserFindById of
        Some m \<Rightarrow> (Inl (MongoError m), sent UserFindById st)
      | None \<Rightarrow> (Inr (find (\<lambda>u. user_id u = uid) (users st)), sent UserFindById st))"

text \<open>
  \<^verbatim>\<open>new User({...})\<close> draws the document's identifier; \<^verbatim>\<open>save\<close> runs the schema's
  validators (all four paths are required, and a required string is not empty), then
  inserts, and the unique index on \<^verbatim>\<open>email\<close> rejects a duplicate. \<^verbatim>\<open>location\<close> takes
  its default.
\<close>

definition User_invalid_paths ::
  "string option \<Rightarrow> string option \<Rightarrow> string option \<Rightarrow> stored_string option \<Rightarrow> string list" where
  "User_invalid_paths fname lname mail pwd =
     (if truthy fname then [] else [''firstName'']) @
     (if truthy lname then [] else [''lastName'']) @
     (if truthy mail then [] else [''email'']) @
     (if pwd = None \<or> pwd = Some (Lit []) then [''password''] else [])"

definition User_save ::
  "env \<Rightarrow> oid \<Rightarrow> string option \<Rightarrow> string option \<Rightarrow> string option \<Rightarrow> stored_string option \<Rightarrow>
   state \<Rightarrow> (js_error + User) \<times> state" where
  "User_save e uid fname lname mail pwd st =
     (case (fname, lname, mail, pwd) of
        (Some f, Some l, Some a, Some h) \<Rightarrow>
          if User_invalid_paths fname lname mail pwd \<noteq> [] then
            (Inl (ValidationError (User_invalid_paths fname lname mail pwd)), st)
          else
            (case fault e UserSave of
               Some m \<Rightarrow> (Inl (MongoError m), sent UserSave st)
             | None \<Rightarrow>
                 if find (\<lambda>u. email u = a) (users st) \<noteq> None then
                   (Inl (MongoError ''E11000 duplicate key''), sent UserSave st)
                 else
                   (let u = \<lparr>user_id = uid, firstName = f, lastName = l, email = a,
                             password = h, location = ''New Delhi, India''\<rparr>
                    in (Inr u, (sent UserSave st)\<lparr>users := users st @ [u]\<rparr>)))
      | _ \<Rightarrow> (Inl (ValidationError (User_invalid_paths fname lname mail pwd)), st))"

definition Item_countDocuments ::
  "env \<Rightarrow> (Item \<Rightarrow> bool) \<Rightarrow> state \<Rightarrow> (js_error + nat) \<times> state" where
  "Item_countDocuments e flt st =
     (case fault e ItemCountDocuments of
        Some m \<Rightarrow> (Inl (MongoError m), sent ItemCountDocuments st)
      | None \<Rightarrow> (Inr (length (filter flt (items st))), sent ItemCountDocuments st))"

definition Item_find :: "env \<Rightarrow> (Item \<Rightarrow> bool) \<Rightarrow> state \<Rightarrow> (js_error + Item list) \<times> state" where
  "Item_find e flt st =
     (case fault e ItemFind of
        Some m \<Rightarrow> (Inl (MongoError m), sent ItemFind st)
      | None \<Rightarrow> (Inr (filter flt (items st)), sent ItemFind st))"

text \<open>
  Casting the parsed \<^verbatim>\<open>seasons\<close> to the schema's \<^verbatim>\<open>[String]\<close>: an array of strings
  is taken as it is.
\<close>

fun strings_of :: "json list \<Rightarrow> string list option" where
  "strings_of [] = Some []"
| "strings_of (JStr s # vs) = (case strings_of vs of None \<Rightarrow> None | Some ss \<Rightarrow> Some (s # ss))"
| "strings_of (v # vs) = None"

definition cast_seasons :: "platform \<Rightarrow> json \<Rightarrow> string list option" where
  "cast_seasons pf v =
     (case v of
        JArr vs \<Rightarrow> (case strings_of vs of Some ss \<Rightarrow> Some ss | None \<Rightarrow> cast_other pf v)
      | _ \<Rightarrow> cast_other pf v)"

text \<open>\<^verbatim>\<open>warmth: { type: Number, min: 1, max: 10 }\<close>; NaN does not cast to a Number.\<close>

definition warmth_ok :: "jsnum \<Rightarrow> bool" where
  "warmth_ok w = (case w of Fin r \<Rightarrow> 1 \<le> r \<and> r \<le> 10 | _ \<Rightarrow> False)"

definition Item_invalid_paths ::
  "platform \<Rightarrow> string option \<Rightarrow> string \<Rightarrow> string option \<Rightarrow> json \<Rightarrow> jsnum \<Rightarrow> string list" where
  "Item_invalid_paths pf nm url cat ss w =
     (if truthy nm then [] else [''name'']) @
     (if url \<noteq> [] then [] else [''imageUrl'']) @
     (if truthy cat then [] else [''category'']) @
     (if cast_seasons pf ss \<noteq> None then [] else [''seasons'']) @
     (if warmth_ok w then [] else [''warmth''])"

text \<open>
  \<^verbatim>\<open>item.save()\<close>: validation, then the insert. \<^verbatim>\<open>isClean\<close>, \<^verbatim>\<open>lastWorn\<close> and
  \<^verbatim>\<open>createdAt\<close> take their defaults.
\<close>

definition Item_save ::
  "platform \<Rightarrow> env \<Rightarrow> oid \<Rightarrow> oid \<Rightarrow> string option \<Rightarrow> string \<Rightarrow> string option \<Rightarrow> string option \<Rightarrow>
   json \<Rightarrow> string option \<Rightarrow> jsnum \<Rightarrow> state \<Rightarrow> (js_error + Item) \<times> state" where
  "Item_save pf e iid uid nm url cat sub ss col w st =
     (case (nm, cat, cast_seasons pf ss) of
        (Some n, Some c, Some sl) \<Rightarrow>
          if Item_invalid_paths pf nm url cat ss w \<noteq> [] then
            (Inl (ValidationError (Item_invalid_paths pf nm url cat ss w)), st)
          else
            (case fault e ItemSave of
               Some m \<Rightarrow> (Inl (MongoError m), sent ItemSave st)
             | None \<Rightarrow>
                 (let i = \<lparr>item_id = iid, userId = uid, name = n, imageUrl = url,
                           category = c, subCategory = sub, seasons = sl, color = col,
                           warmth = w, isClean = True, lastWorn = None,
                           createdAt = clock e\<rparr>
                  in (Inr i, (sent ItemSave st)\<lparr>items := items st @ [i]\<rparr>)))
      | _ \<Rightarrow> (Inl (ValidationError (Item_invalid_paths pf nm url cat ss w)), st))"

subsection \<open>Auth middleware (server.js, lines 83-94)\<close>

definition token_falsy :: "token \<Rightarrow> bool" where
  "token_falsy t = (case t of Raw s \<Rightarrow> s = [] | Signed k c \<Rightarrow> False)"

definition auth ::
  "config \<Rightarrow> env \<Rightarrow> request \<Rightarrow> (request \<Rightarrow> state \<Rightarrow> outcome \<times> state) \<Rightarrow> state \<Rightarrow> outcome \<times> state" where
  "auth cfg e req nxt st =
     (case x_auth_token req of
        None \<Rightarrow> (Responded (401, Msg ''No token, authorization denied''), st)
      | Some t \<Rightarrow>
          if token_falsy t then (Responded (401, Msg ''No token, authorization denied''), st)
          else
            (case jwt_verify t (jwt_secret cfg) (clock e) of
               Inr decoded \<Rightarrow> nxt (req\<lparr>user := Some decoded\<rparr>) st
             | Inl err \<Rightarrow> (Responded (400, Msg ''Token is not valid''), st)))"

text \<open>\<^verbatim>\<open>upload.single("image")\<close>: sets \<^verbatim>\<open>req.file\<close>, or passes the upload's error on.\<close>

definition upload_single ::
  "request \<Rightarrow> (request \<Rightarrow> state \<Rightarrow> outcome \<times> state) \<Rightarrow> state \<Rightarrow> outcome \<times> state" where
  "upload_single req nxt st =
     (case image req of
        Inl err \<Rightarrow> (Unhandled err, st)
      | Inr f \<Rightarrow> nxt (req\<lparr>req_file := f\<rparr>) st)"

subsection \<open>Handlers\<close>

text \<open>
  Each handler is its \<^verbatim>\<open>try\<close> block, a function that returns the response or the
  error thrown, and the \<^verbatim>\<open>catch\<close> clause applied to it.
\<close>

definition catch_error :: "(js_error + response) \<times> state \<Rightarrow> outcome \<times> state" where
  "catch_error r =
     (case fst r of
        Inr resp \<Rightarrow> (Responded resp, snd r)
      | Inl err \<Rightarrow> (Responded (500, ErrorMessage err), snd r))"

definition catch_server_error :: "(js_error + response) \<times> state \<Rightarrow> outcome \<times> state" where
  "catch_server_error r =
     (case fst r of
        Inr resp \<Rightarrow> (Responded resp, snd r)
      | Inl err \<Rightarrow> (Responded (500, Msg ''Server Error''), snd r))"

definition no_catch :: "(js_error + response) \<times> state \<Rightarrow> outcome \<times> state" where
  "no_catch r =
     (case fst r of
        Inr resp \<Rightarrow> (Responded resp, snd r)
      | Inl err \<Rightarrow> (Unhandled err, snd r))"

text \<open>
  POST /api/auth/register (lines 99-131). Destructuring \<^verbatim>\<open>req.body\<close> throws when it
  is \<^verbatim>\<open>undefined\<close>; the error names the first property read.
\<close>

definition register_try :: "config \<Rightarrow> env \<Rightarrow> request \<Rightarrow> state \<Rightarrow> (js_error + response) \<times> state" where
  "register_try cfg e req st =
     (case body req of
        None \<Rightarrow> (Inl (TypeError ''firstName''), st)
      | Some b \<Rightarrow>
          (let fname = b ''firstName''; lname = b ''lastName'';
               mail = b ''email''; pwd = b ''password''
           in if \<not> truthy fname \<or> \<not> truthy lname \<or> \<not> truthy mail \<or> \<not> truthy pwd then
                (Inr (400, Msg ''Please enter all fields''), st)
              else
                (case User_findOne e mail st of
                   (Inl err, st1) \<Rightarrow> (Inl err, st1)
                 | (Inr (Some u), st1) \<Rightarrow> (Inr (400, Msg ''User already exists''), st1)
                 | (Inr None, st1) \<Rightarrow>
                     (case bcrypt_hash pwd (bcrypt_genSalt 10 (salt e)) of
                        Inl err \<Rightarrow> (Inl err, st1)
                      | Inr hashedPassword \<Rightarrow>
                          (case User_save e (next_id st1) fname lname mail (Some hashedPassword)
                                  (st1\<lparr>next_id := Suc (next_id st1)\<rparr>) of
                             (Inl err, st2) \<Rightarrow> (Inl err, st2)
                           | (Inr saved, st2) \<Rightarrow>
                               (Inr (200, TokenBody (jwt_sign (user_id saved) (jwt_secret cfg)
                                                       expiresIn_30d (clock e))), st2))))))"

definition register :: "config \<Rightarrow> env \<Rightarrow> request \<Rightarrow> state \<Rightarrow> outcome \<times> state" where
  "register cfg e req st = catch_error (register_try cfg e req st)"

text \<open>POST /api/auth/login (lines 133-148).\<close>

definition login_try :: "config \<Rightarrow> env \<Rightarrow> request \<Rightarrow> state \<Rightarrow> (js_error + response) \<times> state" where
  "login_try cfg e req st =
     (case body req of
        None \<Rightarrow> (Inl (TypeError ''email''), st)
      | Some b \<Rightarrow>
          (case User_findOne e (b ''email'') st of
             (Inl err, st1) \<Rightarrow> (Inl err, st1)
           | (Inr None, st1) \<Rightarrow> (Inr (400, Msg ''User does not exist''), st1)
           | (Inr (Some u), st1) \<Rightarrow>
               (case bcrypt_compare (b ''password'') (password u) of
                  Inl err \<Rightarrow> (Inl err, st1)
                | Inr isMatch \<Rightarrow>
                    if \<not> isMatch then (Inr (400, Msg ''Invalid credentials''), st1)
                    else (Inr (200, TokenBody (jwt_sign (user_id u) (jwt_secret cfg)
                                                 expiresIn_30d (clock e))), st1))))"

definition login :: "config \<Rightarrow> env \<Rightarrow> request \<Rightarrow> state \<Rightarrow> outcome \<times> state" where
  "login cfg e req st = catch_error (login_try cfg e req st)"

text \<open>GET /api/dashboard/stats (lines 153-173), behind \<open>auth\<close>.\<close>

definition dashboard_stats_try :: "env \<Rightarrow> request \<Rightarrow> state \<Rightarrow> (js_error + response) \<times> state" where
  "dashboard_stats_try e req st =
     (case user req of
        None \<Rightarrow> (Inl (TypeError ''id''), st)
      | Some decoded \<Rightarrow>
          (case User_findById e (claim_id decoded) st of
             (Inl err, st1) \<Rightarrow> (Inl err, st1)
           | (Inr found, st1) \<Rightarrow>
               (case Item_countDocuments e (\<lambda>i. userId i = claim_id decoded) st1 of
                  (Inl err, st2) \<Rightarrow> (Inl err, st2)
                | (Inr totalItems, st2) \<Rightarrow>
                    (case Item_countDocuments e
                            (\<lambda>i. userId i = claim_id decoded \<and> isClean i = False) st2 of
                       (Inl err, st3) \<Rightarrow> (Inl err, st3)
                     | (Inr dirtyItems, st3) \<Rightarrow>
                         (case found of
                            None \<Rightarrow> (Inl (TypeError ''firstName''), st3)
                          | Some u \<Rightarrow>
                              (Inr (200, Stats (firstName u @ '' '' @ lastName u) totalItems
                                           dirtyItems (totalItems = 0)), st3))))))"

definition dashboard_stats :: "env \<Rightarrow> request \<Rightarrow> state \<Rightarrow> outcome \<times> state" where
  "dashboard_stats e req st = catch_server_error (dashboard_stats_try e req st)"

text \<open>
  POST /api/items (lines 176-195), behind \<open>auth\<close> and \<open>upload_single\<close>. The body is
  destructured first; then the object literal is evaluated in the order it is written:
  \<^verbatim>\<open>req.user.id\<close>, \<^verbatim>\<open>req.file.path\<close>, \<^verbatim>\<open>JSON.parse(seasons)\<close>,
  \<^verbatim>\<open>Number(warmth)\<close>.
\<close>

definition create_item_try ::
  "platform \<Rightarrow> env \<Rightarrow> request \<Rightarrow> state \<Rightarrow> (js_error + response) \<times> state" where
  "create_item_try pf e req st =
     (case body req of
        None \<Rightarrow> (Inl (TypeError ''name''), st)
      | Some b \<Rightarrow>
          (case user req of
             None \<Rightarrow> (Inl (TypeError ''id''), st)
           | Some decoded \<Rightarrow>
               (case req_file req of
                  None \<Rightarrow> (Inl (TypeError ''path''), st)
                | Some path \<Rightarrow>
                    (case (case b ''seasons'' of
                             None \<Rightarrow> Inr (JArr [])
                           | Some s \<Rightarrow> if s = [] then Inr (JArr []) else JSON_parse pf s) of
                       Inl err \<Rightarrow> (Inl err, st)
                     | Inr parsed \<Rightarrow>
                         (case Item_save pf e (next_id st) (claim_id decoded) (b ''name'') path
                                 (b ''category'') (b ''subCategory'') parsed
                                 (b ''color'') (Number pf (b ''warmth''))
                                 (st\<lparr>next_id := Suc (next_id st)\<rparr>) of
                            (Inl err, st1) \<Rightarrow> (Inl err, st1)
                          | (Inr saved, st1) \<Rightarrow> (Inr (200, ItemDoc saved), st1))))))"

definition create_item :: "platform \<Rightarrow> env \<Rightarrow> request \<Rightarrow> state \<Rightarrow> outcome \<times> state" where
  "create_item pf e req st = catch_error (create_item_try pf e req st)"

text \<open>GET /api/items (lines 197-200), behind \<open>auth\<close>; the handler has no \<^verbatim>\<open>try\<close>.\<close>

definition list_items_try :: "env \<Rightarrow> request \<Rightarrow> state \<Rightarrow> (js_error + response) \<times> state" where
  "list_items_try e req st =
     (case user req of
        None \<Rightarrow> (Inl (TypeError ''id''), st)
      | Some decoded \<Rightarrow>
          (case Item_find e (\<lambda>i. userId i = claim_id decoded) st of
             (Inl err, st1) \<Rightarrow> (Inl err, st1)
           | (Inr found, st1) \<Rightarrow> (Inr (200, ItemDocs found), st1)))"

definition list_items :: "env \<Rightarrow> request \<Rightarrow> state \<Rightarrow> outcome \<times> state" where
  "list_items e req st = no_catch (list_items_try e req st)"

subsection \<open>Routes\<close>

datatype route = Register | Login | DashboardStats | CreateItem | ListItems

text \<open>The routes registered with \<open>auth\<close> as their first middleware.\<close>

definition protected_route :: "route \<Rightarrow> bool" where
  "protected_route r = (r = DashboardStats \<or> r = CreateItem \<or> r = ListItems)"

text \<open>What a route registers after \<open>auth\<close> (for the two auth routes: all it registers).\<close>

definition handler ::
  "platform \<Rightarrow> config \<Rightarrow> env \<Rightarrow> route \<Rightarrow> request \<Rightarrow> state \<Rightarrow> outcome \<times> state" where
  "handler pf cfg e r =
     (case r of
        Register \<Rightarrow> register cfg e
      | Login \<Rightarrow> login cfg e
      | DashboardStats \<Rightarrow> dashboard_stats e
      | CreateItem \<Rightarrow> (\<lambda>req. upload_single req (create_item pf e))
      | ListItems \<Rightarrow> list_items e)"

definition handle ::
  "platform \<Rightarrow> config \<Rightarrow> env \<Rightarrow> route \<Rightarrow> request \<Rightarrow> state \<Rightarrow> outcome \<times> state" where
  "handle pf cfg e r req st =
     (if protected_route r then auth cfg e req (handler pf cfg e r) st
      else handler pf cfg e r req st)"

text \<open>A run of the server: requests handled one after the other.\<close>

fun run ::
  "platform \<Rightarrow> config \<Rightarrow> (env \<times> route \<times> request) list \<Rightarrow> state \<Rightarrow> state" where
  "run pf cfg [] st = st"
| "run pf cfg ((e, r, req) # rest) st = run pf cfg rest (snd (handle pf cfg e r req st))"

subsection \<open>Sample data\<close>

definition cfg0 :: config where
  "cfg0 = \<lparr>jwt_secret = ''s3cret''\<rparr>"

definition env0 :: env where
  "env0 = \<lparr>clock = 1000, salt = ''NaCl'', fault = (\<lambda>op. None)\<rparr>"

definition st0 :: state where
  "st0 = \<lparr>users = [], items = [], next_id = 0, trace = []\<rparr>"

text \<open>A platform for the examples: it parses one JSON text and converts one number.\<close>

definition pf0 :: platform where
  \<open>pf0 = \<lparr>JSON_parse = (\<lambda>s. if s = ''["summer","fall"]''
                               then Inr (JArr [JStr ''summer'', JStr ''fall''])
                               else Inl (SyntaxError s)),
           Number = (\<lambda>v. if v = Some ''7'' then Fin 7 else NaN),
           cast_other = (\<lambda>v. None)\<rparr>\<close>

definition anonymous :: request where
  "anonymous = \<lparr>x_auth_token = None, body = None, image = Inr None,
                 user = None, req_file = None\<rparr>"

definition ann_signup :: request where
  "ann_signup = anonymous\<lparr>body := Some [''firstName'' \<mapsto> ''Ann'', ''lastName'' \<mapsto> ''Lee'',
                                        ''email'' \<mapsto> ''ann@x.org'', ''password'' \<mapsto> ''hunter2'']\<rparr>"


definition ann_token :: token where
  "ann_token = Signed ''s3cret'' \<lparr>claim_id = 0, claim_iat = 1000, claim_exp = 2593000\<rparr>"

definition as_ann :: request where
  "as_ann = anonymous\<lparr>x_auth_token := Some ann_token\<rparr>"

text \<open>The identity a request is authenticated as, if any.\<close>

definition identity :: "config \<Rightarrow> env \<Rightarrow> request \<Rightarrow> oid option" where
  "identity cfg e req =
     (case x_auth_token req of
        None \<Rightarrow> None
      | Some t \<Rightarrow>
          (case jwt_verify t (jwt_secret cfg) (clock e) of
             Inl err \<Rightarrow> None
           | Inr c \<Rightarrow> Some (claim_id c)))"

definition empty_token :: request where
  "empty_token = anonymous\<lparr>x_auth_token := Some (Raw [])\<rparr>"

definition garbage_token :: request where
  "garbage_token = anonymous\<lparr>x_auth_token := Some (Raw ''abc.def'')\<rparr>"

definition ann :: User where
  "ann = \<lparr>user_id = 0, firstName = ''Ann'', lastName = ''Lee'', email = ''ann@x.org'',
          password = Bcrypt 10 ''NaCl'' ''hunter2'', location = ''New Delhi, India''\<rparr>"

definition bob :: User where
  "bob = \<lparr>user_id = 1, firstName = ''Bob'', lastName = ''Ray'', email = ''bob@x.org'',
          password = Bcrypt 10 ''KCl'' ''letmein'', location = ''New Delhi, India''\<rparr>"

definition shirt :: "oid \<Rightarrow> oid \<Rightarrow> bool \<Rightarrow> Item" where
  "shirt iid uid clean =
     \<lparr>item_id = iid, userId = uid, name = ''Shirt'', imageUrl = ''https://img/shirt.jpg'',
      category = ''tops'', subCategory = None, seasons = [''summer''], color = Some ''blue'',
      warmth = Fin 3, isClean = clean, lastWorn = None, createdAt = 900\<rparr>"

definition wardrobe :: state where
  "wardrobe = \<lparr>users = [ann, bob],
                items = [shirt 2 0 True, shirt 3 1 False, shirt 4 0 False],
                next_id = 5, trace = []\<rparr>"

definition coat_fields :: "string \<rightharpoonup> string" where
  \<open>coat_fields = [''name'' \<mapsto> ''Coat'', ''category'' \<mapsto> ''outerwear'', ''warmth'' \<mapsto> ''7'',
                  ''seasons'' \<mapsto> ''["summer","fall"]'']\<close>

definition coat_upload :: request where
  "coat_upload = as_ann\<lparr>body := Some coat_fields, image := Inr (Some ''https://img/coat.jpg'')\<rparr>"

definition coat :: "string list \<Rightarrow> Item" where
  "coat ss =
     \<lparr>item_id = 0, userId = 0, name = ''Coat'', imageUrl = ''https://img/coat.jpg'',
      category = ''outerwear'', subCategory = None, seasons = ss, color = None,
      warmth = Fin 7, isClean = True, lastWorn = None, createdAt = 1000\<rparr>"

text \<open>An Item without the identifier the store gave it.\<close>

definition forget_id :: "Item \<Rightarrow> Item" where
  "forget_id i = i\<lparr>item_id := 0\<rparr>"

definition acts_as :: "config \<Rightarrow> oid \<Rightarrow> env \<times> route \<times> request \<Rightarrow> bool" where
  "acts_as cfg a x = (identity cfg (fst x) (snd (snd x)) = Some a)"

definition bob_token :: token where
  "bob_token = Signed ''s3cret'' \<lparr>claim_id = 1, claim_iat = 1000, claim_exp = 2593000\<rparr>"

definition bob_upload :: request where
  "bob_upload = coat_upload\<lparr>x_auth_token := Some bob_token\<rparr>"

definition interleaved :: "(env \<times> route \<times> request) list" where
  "interleaved = [(env0, CreateItem, coat_upload), (env0, CreateItem, bob_upload),
                  (env0, CreateItem, coat_upload)]"



definition ann_login :: request where
  "ann_login = anonymous\<lparr>body := Some [''email'' \<mapsto> ''ann@x.org'', ''password'' \<mapsto> ''hunter2'']\<rparr>"

definition session :: "(env \<times> route \<times> request) list" where
  "session = [(env0, Register, ann_signup), (env0, Login, ann_login),
              (env0, CreateItem, coat_upload), (env0, DashboardStats, as_ann)]"

definition down :: env where
  "down = env0\<lparr>fault := (\<lambda>op. Some ''connection lost'')\<rparr>"

definition ann_claim :: claim where
  "ann_claim = \<lparr>claim_id = 0, claim_iat = 1000, claim_exp = 2593000\<rparr>"

definition partial_signup :: request where
  "partial_signup = anonymous\<lparr>body := Some [''firstName'' \<mapsto> ''Ann'', ''email'' \<mapsto> ''ann@x.org'']\<rparr>"

definition wrong_login :: request where
  "wrong_login = anonymous\<lparr>body := Some [''email'' \<mapsto> ''ann@x.org'', ''password'' \<mapsto> ''hunter3'']\<rparr>"

definition registered :: state where
  "registered = \<lparr>users = [ann], items = [], next_id = 1, trace = [UserFindOne, UserSave]\<rparr>"

definition at_expiry :: env where
  "at_expiry = env0\<lparr>clock := 2593000\<rparr>"

definition save_fails :: env where
  "save_fails = env0\<lparr>fault := (\<lambda>op. if op = UserSave \<or> op = ItemSave
                                       then Some ''write refused'' else None)\<rparr>"

definition count_fails :: env where
  "count_fails = env0\<lparr>fault := (\<lambda>op. if op = ItemCountDocuments
                                        then Some ''cursor lost'' else None)\<rparr>"

section \<open>Properties\<close>

lemmas route_defs = handle_def handler_def protected_route_def
lemmas model_defs = handle_def handler_def protected_route_def auth_def token_falsy_def
  jwt_verify_def jwt_sign_def expiresIn_30d_def upload_single_def catch_error_def
  catch_server_error_def no_catch_def register_def register_try_def login_def login_try_def
  dashboard_stats_def dashboard_stats_try_def create_item_def create_item_try_def
  list_items_def list_items_try_def User_findOne_def User_findById_def User_save_def
  User_invalid_paths_def Item_countDocuments_def Item_find_def Item_save_def
  Item_invalid_paths_def cast_seasons_def warmth_ok_def truthy_def sent_def bcrypt_hash_def
  bcrypt_compare_def bcrypt_genSalt_def Let_def
lemmas sample_defs = cfg0_def env0_def st0_def pf0_def anonymous_def ann_signup_def
  ann_token_def as_ann_def empty_token_def garbage_token_def
  ann_def bob_def shirt_def wardrobe_def coat_fields_def coat_upload_def coat_def
  bob_token_def bob_upload_def interleaved_def
  ann_login_def session_def down_def ann_claim_def partial_signup_def wrong_login_def
  registered_def at_expiry_def save_fails_def count_fails_def

subsection \<open>Registration\<close>

text \<open>
  C7. A registration request whose body was parsed and in which firstName, lastName,
  email or password is absent is answered with status 400 and the message of the
  validation failure; the whole store is as it was (no record is created, no operation is
  sent to the database) and the response carries no token. A registration request with
  no parsed body at all (all four fields absent) is not answered that way: the
  destructuring throws and the answer is status 500 with the TypeError; the store is as
  it was.
\<close>

theorem register_missing_field:
  "(\<forall>b. body req = Some b \<and>
        (b ''firstName'' = None \<or> b ''lastName'' = None \<or>
         b ''email'' = None \<or> b ''password'' = None) \<longrightarrow>
      handle pf cfg e Register req st =
        (Responded (400, Msg ''Please enter all fields''), st)) \<and>
   (body req = None \<longrightarrow>
      handle pf cfg e Register req st =
        (Responded (500, ErrorMessage (TypeError ''firstName'')), st))"
  by (auto simp: route_defs register_def register_try_def catch_error_def truthy_def Let_def)

theorem register_missing_field_witness:
  "body partial_signup = Some [''firstName'' \<mapsto> ''Ann'', ''email'' \<mapsto> ''ann@x.org''] \<and>
   [''firstName'' \<mapsto> ''Ann'', ''email'' \<mapsto> ''ann@x.org''] ''lastName'' = None \<and>
   handle pf0 cfg0 env0 Register partial_signup st0 =
     (Responded (400, Msg ''Please enter all fields''), st0) \<and>
   body anonymous = None \<and>
   handle pf0 cfg0 env0 Register anonymous st0 =
     (Responded (500, ErrorMessage (TypeError ''firstName'')), st0)"
proof -
  have parsed: "body partial_signup = Some [''firstName'' \<mapsto> ''Ann'', ''email'' \<mapsto> ''ann@x.org'']"
    by (simp add: sample_defs)
  have absent: "[''firstName'' \<mapsto> ''Ann'', ''email'' \<mapsto> ''ann@x.org''] ''lastName'' = None"
    by simp
  have none: "body anonymous = None"
    by (simp add: sample_defs)
  from register_missing_field [of partial_signup pf0 cfg0 env0 st0] parsed absent
  have one: "handle pf0 cfg0 env0 Register partial_signup st0 =
      (Responded (400, Msg ''Please enter all fields''), st0)"
    by blast
  from register_missing_field [of anonymous pf0 cfg0 env0 st0] none
  have two: "handle pf0 cfg0 env0 Register anonymous st0 =
      (Responded (500, ErrorMessage (TypeError ''firstName'')), st0)"
    by blast
  from parsed absent none one two show ?thesis
    by blast
qed

lemma find_email_present:
  "a \<in> email ` set us \<Longrightarrow> find (\<lambda>u. email u = a) us \<noteq> None"
  by (auto simp: find_None_iff)

text \<open>
  C8. A registration request whose email is already in the credential store creates no
  record and is never answered with a token; when its four fields are present and the
  store answers the lookup, the answer is status 400 with the duplicate-email message.
\<close>

theorem register_duplicate_email:
  assumes "body req = Some b" and "b ''email'' = Some a" and "a \<in> email ` set (users st)"
  shows "users (snd (handle pf cfg e Register req st)) = users st \<and>
         (\<forall>t. fst (handle pf cfg e Register req st) \<noteq> Responded (200, TokenBody t)) \<and>
         (truthy (b ''firstName'') \<and> truthy (b ''lastName'') \<and>
          truthy (b ''email'') \<and> truthy (b ''password'') \<and>
          fault e UserFindOne = None \<longrightarrow>
            handle pf cfg e Register req st =
              (Responded (400, Msg ''User already exists''), sent UserFindOne st))"
  using assms find_email_present [OF assms(3)]
  by (auto simp: route_defs register_def register_try_def catch_error_def Let_def
      User_findOne_def sent_def split: option.splits)

theorem register_duplicate_email_witness:
  "body ann_signup = Some [''firstName'' \<mapsto> ''Ann'', ''lastName'' \<mapsto> ''Lee'',
                           ''email'' \<mapsto> ''ann@x.org'', ''password'' \<mapsto> ''hunter2''] \<and>
   snd (handle pf0 cfg0 env0 Register ann_signup st0) = registered \<and>
   ''ann@x.org'' \<in> email ` set (users registered) \<and>
   handle pf0 cfg0 env0 Register ann_signup registered =
     (Responded (400, Msg ''User already exists''), sent UserFindOne registered)"
proof -
  let ?b = "[''firstName'' \<mapsto> ''Ann'', ''lastName'' \<mapsto> ''Lee'',
             ''email'' \<mapsto> ''ann@x.org'', ''password'' \<mapsto> ''hunter2'']"
  have first: "snd (handle pf0 cfg0 env0 Register ann_signup st0) = registered"
    by (simp add: model_defs sample_defs)
  have b: "body ann_signup = Some ?b"
    by (simp add: sample_defs)
  have em: "?b ''email'' = Some ''ann@x.org''"
    by simp
  have present: "''ann@x.org'' \<in> email ` set (users registered)"
    by (simp add: sample_defs)
  have fields: "truthy (?b ''firstName'') \<and> truthy (?b ''lastName'') \<and>
      truthy (?b ''email'') \<and> truthy (?b ''password'') \<and> fault env0 UserFindOne = None"
    by (simp add: sample_defs truthy_def)
  from register_duplicate_email [OF b em present, of pf0 cfg0 env0] fields
  have "handle pf0 cfg0 env0 Register ann_signup registered =
      (Responded (400, Msg ''User already exists''), sent UserFindOne registered)"
    by blast
  with b first present show ?thesis
    by blast
qed

subsection \<open>The auth gate\<close>

text \<open>
  C1 (as the code has it). On a protected route (dashboard stats, item creation, item
  listing): when the x-auth-token header is absent or is the empty string, the gate
  answers 401 (no token); when the header carries a non-empty value that fails
  verification, it answers 400 (invalid token); in both cases the store is exactly as
  before, so nothing was sent to the database and nothing downstream ran. When the token
  verifies, the decoded claim is attached to the request and the outcome is that of one
  run of the rest of the route on that request.
\<close>

theorem auth_gate:
  assumes "protected_route r"
  shows "(x_auth_token req = None \<or> x_auth_token req = Some (Raw []) \<longrightarrow>
            handle pf cfg e r req st =
              (Responded (401, Msg ''No token, authorization denied''), st)) \<and>
         (\<forall>t err. x_auth_token req = Some t \<and> t \<noteq> Raw [] \<and>
              jwt_verify t (jwt_secret cfg) (clock e) = Inl err \<longrightarrow>
            handle pf cfg e r req st = (Responded (400, Msg ''Token is not valid''), st)) \<and>
         (\<forall>t c. x_auth_token req = Some t \<and>
              jwt_verify t (jwt_secret cfg) (clock e) = Inr c \<longrightarrow>
            handle pf cfg e r req st = handler pf cfg e r (req\<lparr>user := Some c\<rparr>) st)"
  using assms
  by (auto simp: handle_def auth_def token_falsy_def jwt_verify_def split: token.splits)

theorem auth_gate_witness:
  "protected_route ListItems \<and>
   handle pf0 cfg0 env0 ListItems anonymous st0 =
     (Responded (401, Msg ''No token, authorization denied''), st0) \<and>
   handle pf0 cfg0 env0 ListItems garbage_token st0 =
     (Responded (400, Msg ''Token is not valid''), st0) \<and>
   handle pf0 cfg0 env0 ListItems as_ann st0 =
     handler pf0 cfg0 env0 ListItems
       (as_ann\<lparr>user := Some \<lparr>claim_id = 0, claim_iat = 1000, claim_exp = 2593000\<rparr>\<rparr>) st0"
proof -
  have p: "protected_route ListItems"
    by (simp add: protected_route_def)
  have a: "x_auth_token anonymous = None"
    by (simp add: sample_defs)
  have g: "x_auth_token garbage_token = Some (Raw ''abc.def'') \<and> Raw ''abc.def'' \<noteq> Raw [] \<and>
      jwt_verify (Raw ''abc.def'') (jwt_secret cfg0) (clock env0) =
        Inl (JsonWebTokenError ''jwt malformed'')"
    by (simp add: sample_defs jwt_verify_def)
  have v: "x_auth_token as_ann = Some ann_token \<and>
      jwt_verify ann_token (jwt_secret cfg0) (clock env0) =
        Inr \<lparr>claim_id = 0, claim_iat = 1000, claim_exp = 2593000\<rparr>"
    by (simp add: sample_defs jwt_verify_def)
  from auth_gate [OF p, of anonymous pf0 cfg0 env0 st0] a
       auth_gate [OF p, of garbage_token pf0 cfg0 env0 st0] g
       auth_gate [OF p, of as_ann pf0 cfg0 env0 st0] v p
  show ?thesis by blast
qed

text \<open>
  The claim as written (a header that is present but fails verification is answered with
  400) fails for the header that is present and empty: verification of the empty string
  fails, and the answer is 401.
\<close>

theorem auth_gate_empty_header_counterexample:
  "x_auth_token empty_token = Some (Raw []) \<and>
   jwt_verify (Raw []) (jwt_secret cfg0) (clock env0) = Inl (JsonWebTokenError ''jwt malformed'') \<and>
   handle pf0 cfg0 env0 ListItems empty_token st0 =
     (Responded (401, Msg ''No token, authorization denied''), st0) \<and>
   handle pf0 cfg0 env0 ListItems empty_token st0 \<noteq>
     (Responded (400, Msg ''Token is not valid''), st0)"
  by (simp add: route_defs auth_def token_falsy_def jwt_verify_def sample_defs)

subsection \<open>Item creation\<close>

lemma authenticated:
  "x_auth_token req = Some t \<Longrightarrow> jwt_verify t (jwt_secret cfg) (clock e) = Inr c \<Longrightarrow>
   auth cfg e req nxt st = nxt (req\<lparr>user := Some c\<rparr>) st"
  by (auto simp: auth_def token_falsy_def jwt_verify_def split: token.splits)

text \<open>
  C10. An authenticated item-creation request without the image part is answered with
  status 500 and the message of a TypeError, and the store is exactly as before, so no
  Item is persisted and nothing is sent to the database. When the body was parsed, the
  error is the one of reading the path of the missing file, caught by the handler; when
  no body was parsed either, it is the one of destructuring the body, thrown one line
  earlier. In neither case is there a validation answer of its own for the missing image.
\<close>

theorem create_item_without_image:
  assumes "x_auth_token req = Some t"
    and "jwt_verify t (jwt_secret cfg) (clock e) = Inr c"
    and "image req = Inr None"
  shows "handle pf cfg e CreateItem req st =
           (Responded (500, ErrorMessage (TypeError (if body req = None then ''name''
                                                     else ''path''))), st)"
  using assms
  by (auto simp: route_defs authenticated upload_single_def create_item_def
      create_item_try_def catch_error_def)

theorem create_item_without_image_witness:
  "x_auth_token as_ann = Some ann_token \<and>
   jwt_verify ann_token (jwt_secret cfg0) (clock env0) = Inr ann_claim \<and>
   image as_ann = Inr None \<and> body as_ann = None \<and>
   handle pf0 cfg0 env0 CreateItem as_ann st0 =
     (Responded (500, ErrorMessage (TypeError ''name'')), st0) \<and>
   image (as_ann\<lparr>body := Some coat_fields\<rparr>) = Inr None \<and>
   handle pf0 cfg0 env0 CreateItem (as_ann\<lparr>body := Some coat_fields\<rparr>) st0 =
     (Responded (500, ErrorMessage (TypeError ''path'')), st0)"
proof -
  have h: "x_auth_token (as_ann\<lparr>body := x\<rparr>) = Some ann_token" for x
    by (simp add: sample_defs)
  have v: "jwt_verify ann_token (jwt_secret cfg0) (clock env0) = Inr ann_claim"
    by (simp add: sample_defs jwt_verify_def)
  have i: "image (as_ann\<lparr>body := x\<rparr>) = Inr None" for x
    by (simp add: sample_defs)
  have same: "as_ann\<lparr>body := None\<rparr> = as_ann" and none: "body as_ann = None"
    by (simp_all add: sample_defs)
  from create_item_without_image [OF h [of None] v i [of None], of pf0 st0]
  have one: "handle pf0 cfg0 env0 CreateItem as_ann st0 =
      (Responded (500, ErrorMessage (TypeError ''name'')), st0)"
    by (simp add: same none)
  from create_item_without_image
    [OF h [of "Some coat_fields"] v i [of "Some coat_fields"], of pf0 st0]
  have two: "handle pf0 cfg0 env0 CreateItem (as_ann\<lparr>body := Some coat_fields\<rparr>) st0 =
      (Responded (500, ErrorMessage (TypeError ''path'')), st0)"
    by simp
  from h [of None] v i [of None] i [of "Some coat_fields"] none one two show ?thesis
    by (simp add: same)
qed







subsection \<open>Dashboard\<close>

text \<open>
  C5. For an authenticated user whose record the store returns, the dashboard answers 200
  with the name made of firstName, a space and lastName, totalItems the number of Items
  whose owner is the user, dirtyItems the number of those that are not clean, and
  isNewUser true exactly when totalItems is zero; a user with no Items gets
  \<open>isNewUser = True\<close>, \<open>totalItems = 0\<close>, \<open>dirtyItems = 0\<close>.
\<close>

theorem dashboard_stats_values:
  assumes "x_auth_token req = Some t"
    and "jwt_verify t (jwt_secret cfg) (clock e) = Inr c"
    and "fault e UserFindById = None" and "fault e ItemCountDocuments = None"
    and "find (\<lambda>u. user_id u = claim_id c) (users st) = Some u"
  shows "fst (handle pf cfg e DashboardStats req st) =
           Responded (200, Stats (firstName u @ '' '' @ lastName u)
             (length (filter (\<lambda>i. userId i = claim_id c) (items st)))
             (length (filter (\<lambda>i. userId i = claim_id c \<and> \<not> isClean i) (items st)))
             (length (filter (\<lambda>i. userId i = claim_id c) (items st)) = 0)) \<and>
         ((\<forall>i \<in> set (items st). userId i \<noteq> claim_id c) \<longrightarrow>
            fst (handle pf cfg e DashboardStats req st) =
              Responded (200, Stats (firstName u @ '' '' @ lastName u) 0 0 True))"
proof -
  have stats: "fst (handle pf cfg e DashboardStats req st) =
      Responded (200, Stats (firstName u @ '' '' @ lastName u)
        (length (filter (\<lambda>i. userId i = claim_id c) (items st)))
        (length (filter (\<lambda>i. userId i = claim_id c \<and> \<not> isClean i) (items st)))
        (length (filter (\<lambda>i. userId i = claim_id c) (items st)) = 0))"
    using assms
    by (simp add: route_defs authenticated dashboard_stats_def dashboard_stats_try_def
        catch_server_error_def User_findById_def Item_countDocuments_def sent_def)
  have "filter (\<lambda>i. userId i = claim_id c \<and> \<not> isClean i) (items st) = [] \<and>
        filter (\<lambda>i. userId i = claim_id c) (items st) = []"
    if "\<forall>i \<in> set (items st). userId i \<noteq> claim_id c"
    using that by (simp add: filter_empty_conv)
  with stats show ?thesis by simp
qed

theorem dashboard_stats_values_witness:
  "x_auth_token as_ann = Some ann_token \<and>
   jwt_verify ann_token (jwt_secret cfg0) (clock env0) =
     Inr \<lparr>claim_id = 0, claim_iat = 1000, claim_exp = 2593000\<rparr> \<and>
   find (\<lambda>u. user_id u = 0) (users wardrobe) = Some ann \<and>
   fst (handle pf0 cfg0 env0 DashboardStats as_ann wardrobe) =
     Responded (200, Stats ''Ann Lee'' 2 1 False) \<and>
   find (\<lambda>u. user_id u = 0) (users (wardrobe\<lparr>items := []\<rparr>)) = Some ann \<and>
   fst (handle pf0 cfg0 env0 DashboardStats as_ann (wardrobe\<lparr>items := []\<rparr>)) =
     Responded (200, Stats ''Ann Lee'' 0 0 True)"
proof -
  have h: "x_auth_token as_ann = Some ann_token"
    by (simp add: sample_defs)
  have v: "jwt_verify ann_token (jwt_secret cfg0) (clock env0) =
      Inr \<lparr>claim_id = 0, claim_iat = 1000, claim_exp = 2593000\<rparr>"
    by (simp add: sample_defs jwt_verify_def)
  have f: "fault env0 UserFindById = None" "fault env0 ItemCountDocuments = None"
    by (simp_all add: sample_defs)
  have u: "find (\<lambda>u. user_id u = claim_id \<lparr>claim_id = 0, claim_iat = 1000, claim_exp = 2593000\<rparr>)
      (users wardrobe) = Some ann"
    by (simp add: sample_defs)
  have u': "find (\<lambda>u. user_id u = claim_id \<lparr>claim_id = 0, claim_iat = 1000, claim_exp = 2593000\<rparr>)
      (users (wardrobe\<lparr>items := []\<rparr>)) = Some ann"
    by (simp add: sample_defs)
  have none: "\<forall>i \<in> set (items (wardrobe\<lparr>items := []\<rparr>)).
      userId i \<noteq> claim_id \<lparr>claim_id = 0, claim_iat = 1000, claim_exp = 2593000\<rparr>"
    by simp
  from dashboard_stats_values [OF h v f u, of pf0]
  have full: "fst (handle pf0 cfg0 env0 DashboardStats as_ann wardrobe) =
      Responded (200, Stats ''Ann Lee'' 2 1 False)"
    by (simp add: sample_defs)
  from dashboard_stats_values [OF h v f u', of pf0] none
  have fresh: "fst (handle pf0 cfg0 env0 DashboardStats as_ann (wardrobe\<lparr>items := []\<rparr>)) =
      Responded (200, Stats ''Ann Lee'' 0 0 True)"
    by (simp add: ann_def)
  from h v u u' full fresh show ?thesis
    by simp
qed

subsection \<open>Item listing\<close>

lemma identity_authenticated:
  assumes "identity cfg e req = Some a"
  obtains t c where "x_auth_token req = Some t"
    and "jwt_verify t (jwt_secret cfg) (clock e) = Inr c" and "claim_id c = a"
  using assms by (auto simp: identity_def split: option.splits sum.splits)

lemma not_authenticated:
  assumes "identity cfg e req = None"
  shows "snd (auth cfg e req nxt st) = st"
  using assms
  by (auto simp: identity_def auth_def split: option.splits sum.splits)

lemma Item_save_items:
  "items (snd (Item_save pf e iid uid nm url cat sub v col w st)) = items st \<or>
   (\<exists>i. Item_save pf e iid uid nm url cat sub v col w st =
          (Inr i, (sent ItemSave st)\<lparr>items := items st @ [i]\<rparr>) \<and> userId i = uid)"
  by (auto simp: Item_save_def sent_def Let_def split: option.splits)

lemma create_item_no_body:
  assumes "body req = None"
  shows "create_item pf e req st = (Responded (500, ErrorMessage (TypeError ''name'')), st)"
  using assms by (simp add: create_item_def create_item_try_def catch_error_def)

lemma create_item_items:
  "items (snd (create_item pf e req st)) = items st \<or>
   (\<exists>i c. user req = Some c \<and> userId i = claim_id c \<and>
      fst (create_item pf e req st) = Responded (200, ItemDoc i) \<and>
      items (snd (create_item pf e req st)) = items st @ [i])"
proof (cases "body req")
  case None
  then show ?thesis
    by (simp add: create_item_no_body)
next
  case (Some b)
  note b = this
  show ?thesis
  proof (cases "user req")
    case None
    with b show ?thesis
      by (simp add: create_item_def create_item_try_def catch_error_def)
  next
    case (Some c)
    note c = this
    show ?thesis
    proof (cases "req_file req")
      case None
      with b c show ?thesis
        by (simp add: create_item_def create_item_try_def catch_error_def)
    next
      case (Some path)
      note path = this
      show ?thesis
      proof (cases "case b ''seasons'' of None \<Rightarrow> Inr (JArr [])
                    | Some s \<Rightarrow> if s = [] then Inr (JArr []) else JSON_parse pf s")
        case (Inl err)
        with b c path show ?thesis
          by (simp add: create_item_def create_item_try_def catch_error_def)
      next
        case (Inr parsed)
        from Item_save_items [of pf e "next_id st" "claim_id c" "b ''name''" path
            "b ''category''" "b ''subCategory''" parsed "b ''color''"
            "Number pf (b ''warmth'')" "st\<lparr>next_id := Suc (next_id st)\<rparr>"]
        show ?thesis
          using b c path Inr
          by (auto simp: create_item_def create_item_try_def catch_error_def sent_def
              split: prod.splits sum.splits)
      qed
    qed
  qed
qed


lemma Item_save_created:
  assumes "Item_save pf e iid uid nm url cat sub v col w st = (Inr i, st')"
  shows "userId i = uid \<and> items st' = items st @ [i]"
  using assms
  by (auto simp: Item_save_def sent_def Let_def split: option.splits if_splits)

lemma create_item_created:
  assumes "create_item pf e req st = (Responded (200, ItemDoc i), st')"
    and "user req = Some c"
  shows "userId i = claim_id c \<and> items st' = items st @ [i]"
  using assms
  by (auto simp: create_item_def create_item_try_def catch_error_def
      split: option.splits sum.splits prod.splits dest: Item_save_created)

lemma handle_created:
  assumes "handle pf cfg e CreateItem req st = (Responded (200, ItemDoc i), st')"
    and "identity cfg e req = Some b"
  shows "userId i = b \<and> items st' = items st @ [i]"
proof -
  from assms(2) obtain t c where tc: "x_auth_token req = Some t"
    "jwt_verify t (jwt_secret cfg) (clock e) = Inr c" "claim_id c = b"
    by (rule identity_authenticated)
  from assms(1) have "upload_single (req\<lparr>user := Some c\<rparr>) (create_item pf e) st =
      (Responded (200, ItemDoc i), st')"
    by (simp add: route_defs authenticated [OF tc(1,2)])
  then obtain f where "create_item pf e (req\<lparr>user := Some c, req_file := f\<rparr>) st =
      (Responded (200, ItemDoc i), st')"
    by (auto simp: upload_single_def split: sum.splits)
  from create_item_created [OF this] tc(3) show ?thesis
    by simp
qed

lemma register_items: "items (snd (register cfg e req st)) = items st"
  by (auto simp: register_def register_try_def catch_error_def User_findOne_def User_save_def
      sent_def Let_def split: option.splits sum.splits)

lemma login_items: "items (snd (login cfg e req st)) = items st"
  by (auto simp: login_def login_try_def catch_error_def User_findOne_def sent_def
      split: option.splits sum.splits)

lemma dashboard_stats_items: "items (snd (dashboard_stats e req st)) = items st"
  by (auto simp: dashboard_stats_def dashboard_stats_try_def catch_server_error_def
      User_findById_def Item_countDocuments_def sent_def split: option.splits)

lemma list_items_items: "items (snd (list_items e req st)) = items st"
  by (auto simp: list_items_def list_items_try_def no_catch_def Item_find_def sent_def
      split: option.splits)

text \<open>What a request does to the Items: nothing, or one Item of its own identity appended.\<close>

lemma handle_items:
  "items (snd (handle pf cfg e r req st)) = items st \<or>
   (\<exists>i. identity cfg e req = Some (userId i) \<and>
        items (snd (handle pf cfg e r req st)) = items st @ [i])"
proof (cases "protected_route r")
  case False
  then show ?thesis
    by (cases r) (simp_all add: route_defs register_items login_items)
next
  case True
  show ?thesis
  proof (cases "identity cfg e req")
    case None
    with True show ?thesis
      by (simp add: handle_def not_authenticated)
  next
    case (Some b)
    then obtain t c where tc: "x_auth_token req = Some t"
      "jwt_verify t (jwt_secret cfg) (clock e) = Inr c" "claim_id c = b"
      by (rule identity_authenticated)
    show ?thesis
    proof (cases r)
      case CreateItem
      show ?thesis
      proof (cases "image req")
        case (Inl err)
        then show ?thesis
          by (simp add: CreateItem route_defs authenticated [OF tc(1,2)] upload_single_def)
      next
        case (Inr f)
        from create_item_items [of pf e "req\<lparr>user := Some c, req_file := f\<rparr>" st] Some tc(3)
        show ?thesis
          by (auto simp: CreateItem Inr route_defs authenticated [OF tc(1,2)] upload_single_def)
      qed
    qed (simp_all add: route_defs authenticated [OF tc(1,2)] dashboard_stats_items
        list_items_items register_items login_items)
  qed
qed

lemma others_leave_items:
  assumes "identity cfg e req \<noteq> Some a"
  shows "filter (\<lambda>i. userId i = a) (items (snd (handle pf cfg e r req st))) =
         filter (\<lambda>i. userId i = a) (items st)"
  using handle_items [of pf cfg e r req st] assms by auto

lemma others_leave_items_run:
  assumes "\<forall>x \<in> set rs. \<not> acts_as cfg a x"
  shows "filter (\<lambda>i. userId i = a) (items (run pf cfg rs st)) =
         filter (\<lambda>i. userId i = a) (items st)"
  using assms
proof (induction rs arbitrary: st)
  case Nil
  show ?case by simp
next
  case (Cons x rs)
  obtain e r req where x: "x = (e, r, req)"
    by (cases x) auto
  from Cons.prems have "identity cfg e req \<noteq> Some a" and "\<forall>y \<in> set rs. \<not> acts_as cfg a y"
    by (simp_all add: x acts_as_def)
  with Cons.IH [of "snd (handle pf cfg e r req st)"] show ?case
    by (simp add: x others_leave_items)
qed


text \<open>
  The same request on two stores: it changes the Items of neither, or it appends to both
  the same Item up to the identifier drawn.
\<close>

lemma Item_save_two:
  "(items (snd (Item_save pf e iid uid nm url cat sub v col w st)) = items st \<and>
    items (snd (Item_save pf e iid' uid nm url cat sub v col w st')) = items st') \<or>
   (\<exists>i. userId i = uid \<and>
      items (snd (Item_save pf e iid uid nm url cat sub v col w st)) =
        items st @ [i\<lparr>item_id := iid\<rparr>] \<and>
      items (snd (Item_save pf e iid' uid nm url cat sub v col w st')) =
        items st' @ [i\<lparr>item_id := iid'\<rparr>])"
proof (cases "\<exists>n c sl. nm = Some n \<and> cat = Some c \<and> cast_seasons pf v = Some sl \<and>
    Item_invalid_paths pf nm url cat v w = [] \<and> fault e ItemSave = None")
  case False
  then show ?thesis
    by (auto simp: Item_save_def sent_def Let_def split: option.splits)
next
  case True
  then obtain n c sl where ok: "nm = Some n" "cat = Some c" "cast_seasons pf v = Some sl"
    "Item_invalid_paths pf nm url cat v w = []" "fault e ItemSave = None"
    by blast
  let ?i = "\<lparr>item_id = 0, userId = uid, name = n, imageUrl = url, category = c,
            subCategory = sub, seasons = sl, color = col, warmth = w, isClean = True,
            lastWorn = None, createdAt = clock e\<rparr>"
  have "userId ?i = uid \<and>
      items (snd (Item_save pf e iid uid nm url cat sub v col w st)) =
        items st @ [?i\<lparr>item_id := iid\<rparr>] \<and>
      items (snd (Item_save pf e iid' uid nm url cat sub v col w st')) =
        items st' @ [?i\<lparr>item_id := iid'\<rparr>]"
    using ok by (simp add: Item_save_def sent_def Let_def)
  then show ?thesis by blast
qed

lemma create_item_two:
  "(items (snd (create_item pf e req st)) = items st \<and>
    items (snd (create_item pf e req st')) = items st') \<or>
   (\<exists>i c. user req = Some c \<and> userId i = claim_id c \<and>
      items (snd (create_item pf e req st)) = items st @ [i\<lparr>item_id := next_id st\<rparr>] \<and>
      items (snd (create_item pf e req st')) = items st' @ [i\<lparr>item_id := next_id st'\<rparr>])"
proof (cases "body req")
  case None
  then show ?thesis
    by (simp add: create_item_no_body)
next
  case (Some b)
  note b = this
  show ?thesis
  proof (cases "user req")
    case None
    with b show ?thesis
      by (simp add: create_item_def create_item_try_def catch_error_def)
  next
    case (Some c)
    note c = this
    show ?thesis
    proof (cases "req_file req")
      case None
      with b c show ?thesis
        by (simp add: create_item_def create_item_try_def catch_error_def)
    next
      case (Some path)
      note path = this
      show ?thesis
      proof (cases "case b ''seasons'' of None \<Rightarrow> Inr (JArr [])
                    | Some s \<Rightarrow> if s = [] then Inr (JArr []) else JSON_parse pf s")
        case (Inl err)
        with b c path show ?thesis
          by (simp add: create_item_def create_item_try_def catch_error_def)
      next
        case (Inr parsed)
        have unfold: "items (snd (create_item pf e req s)) =
            items (snd (Item_save pf e (next_id s) (claim_id c) (b ''name'') path
              (b ''category'') (b ''subCategory'') parsed (b ''color'')
              (Number pf (b ''warmth'')) (s\<lparr>next_id := Suc (next_id s)\<rparr>)))" for s
          using b c path Inr
          by (simp add: create_item_def create_item_try_def catch_error_def
              split: prod.splits sum.splits)
        from Item_save_two [of pf e "next_id st" "claim_id c" "b ''name''" path
            "b ''category''" "b ''subCategory''" parsed "b ''color''"
            "Number pf (b ''warmth'')" "st\<lparr>next_id := Suc (next_id st)\<rparr>" "next_id st'"
            "st'\<lparr>next_id := Suc (next_id st')\<rparr>"]
        show ?thesis
          using c by (auto simp: unfold)
      qed
    qed
  qed
qed

lemma handle_two:
  "(items (snd (handle pf cfg e r req st)) = items st \<and>
    items (snd (handle pf cfg e r req st')) = items st') \<or>
   (\<exists>i. items (snd (handle pf cfg e r req st)) = items st @ [i\<lparr>item_id := next_id st\<rparr>] \<and>
        items (snd (handle pf cfg e r req st')) = items st' @ [i\<lparr>item_id := next_id st'\<rparr>])"
proof (cases "protected_route r")
  case False
  then show ?thesis
    by (cases r) (simp_all add: route_defs register_items login_items)
next
  case True
  show ?thesis
  proof (cases "identity cfg e req")
    case None
    with True show ?thesis
      by (simp add: handle_def not_authenticated)
  next
    case (Some b)
    then obtain t c where tc: "x_auth_token req = Some t"
      "jwt_verify t (jwt_secret cfg) (clock e) = Inr c" "claim_id c = b"
      by (rule identity_authenticated)
    show ?thesis
    proof (cases r)
      case CreateItem
      show ?thesis
      proof (cases "image req")
        case (Inl err)
        then show ?thesis
          by (simp add: CreateItem route_defs authenticated [OF tc(1,2)] upload_single_def)
      next
        case (Inr f)
        from create_item_two [of pf e "req\<lparr>user := Some c, req_file := f\<rparr>" st st']
        show ?thesis
          by (auto simp: CreateItem Inr route_defs authenticated [OF tc(1,2)] upload_single_def)
      qed
    qed (simp_all add: route_defs authenticated [OF tc(1,2)] dashboard_stats_items
        list_items_items register_items login_items)
  qed
qed

lemma same_request_two_stores:
  assumes "map forget_id (filter (\<lambda>i. userId i = a) (items st)) =
           map forget_id (filter (\<lambda>i. userId i = a) (items st'))"
  shows "map forget_id (filter (\<lambda>i. userId i = a) (items (snd (handle pf cfg e r req st)))) =
         map forget_id (filter (\<lambda>i. userId i = a) (items (snd (handle pf cfg e r req st'))))"
  using handle_two [of pf cfg e r req st st'] assms
  by (auto simp: forget_id_def)

lemma own_requests_decide:
  assumes "map forget_id (filter (\<lambda>i. userId i = a) (items st)) =
           map forget_id (filter (\<lambda>i. userId i = a) (items st'))"
  shows "map forget_id (filter (\<lambda>i. userId i = a) (items (run pf cfg rs st))) =
         map forget_id (filter (\<lambda>i. userId i = a)
           (items (run pf cfg (filter (acts_as cfg a) rs) st')))"
  using assms
proof (induction rs arbitrary: st st')
  case Nil
  then show ?case by simp
next
  case (Cons x rs)
  obtain e r req where x: "x = (e, r, req)"
    by (cases x) auto
  show ?case
  proof (cases "acts_as cfg a x")
    case True
    with Cons.IH [OF same_request_two_stores [OF Cons.prems, of pf cfg e r req]]
    show ?thesis by (simp add: x)
  next
    case False
    then have "identity cfg e req \<noteq> Some a"
      by (simp add: x acts_as_def)
    from others_leave_items [OF this, of pf r st] Cons.prems
    have "map forget_id (filter (\<lambda>i. userId i = a) (items (snd (handle pf cfg e r req st)))) =
          map forget_id (filter (\<lambda>i. userId i = a) (items st'))"
      by simp
    from Cons.IH [OF this] False show ?thesis
      by (simp add: x)
  qed
qed

lemma listing_of:
  assumes "identity cfg e req = Some a" and "fault e ItemFind = None"
  shows "fst (handle pf cfg e ListItems req st) =
           Responded (200, ItemDocs (filter (\<lambda>i. userId i = a) (items st)))"
proof -
  from assms(1) obtain t c where tc: "x_auth_token req = Some t"
    "jwt_verify t (jwt_secret cfg) (clock e) = Inr c" "claim_id c = a"
    by (rule identity_authenticated)
  with assms(2) show ?thesis
    by (simp add: route_defs authenticated [OF tc(1,2)] list_items_def list_items_try_def
        no_catch_def Item_find_def)
qed

text \<open>
  C2. Let A be authenticated and the store answer the query. After any run of requests
  (creations by any users, interleaved in any way), the listing returned to A is exactly
  the Items whose owner is A; an Item created by another user B has owner B and is not in
  it; a run in which no request is A's leaves A's listing as it was; and A's listing after
  a run is, up to the identifiers the store draws, the listing after A's own requests of
  that run alone.
\<close>

theorem listing_isolation:
  assumes "identity cfg e req = Some a" and "fault e ItemFind = None"
  shows "fst (handle pf cfg e ListItems req (run pf cfg rs st)) =
           Responded (200, ItemDocs (filter (\<lambda>i. userId i = a) (items (run pf cfg rs st)))) \<and>
         (\<forall>i \<in> set (filter (\<lambda>i. userId i = a) (items (run pf cfg rs st))). userId i = a) \<and>
         (\<forall>b e' req' st1 i st2. b \<noteq> a \<and> identity cfg e' req' = Some b \<and>
              handle pf cfg e' CreateItem req' st1 = (Responded (200, ItemDoc i), st2) \<longrightarrow>
            userId i = b \<and>
            i \<notin> set (filter (\<lambda>i. userId i = a) (items (run pf cfg rs st)))) \<and>
         ((\<forall>x \<in> set rs. \<not> acts_as cfg a x) \<longrightarrow>
            fst (handle pf cfg e ListItems req (run pf cfg rs st)) =
            fst (handle pf cfg e ListItems req st)) \<and>
         (\<exists>xs ys.
            fst (handle pf cfg e ListItems req (run pf cfg rs st)) =
              Responded (200, ItemDocs xs) \<and>
            fst (handle pf cfg e ListItems req (run pf cfg (filter (acts_as cfg a) rs) st)) =
              Responded (200, ItemDocs ys) \<and>
            map forget_id xs = map forget_id ys)"
proof -
  note listing = listing_of [OF assms]
  have created: "userId i = b \<and>
      i \<notin> set (filter (\<lambda>i. userId i = a) (items (run pf cfg rs st)))"
    if "b \<noteq> a" "identity cfg e' req' = Some b"
      "handle pf cfg e' CreateItem req' st1 = (Responded (200, ItemDoc i), st2)"
    for b e' req' st1 i st2
    using handle_created [OF that(3) that(2)] that(1) by simp
  have others: "fst (handle pf cfg e ListItems req (run pf cfg rs st)) =
      fst (handle pf cfg e ListItems req st)"
    if "\<forall>x \<in> set rs. \<not> acts_as cfg a x"
    using others_leave_items_run [OF that, of pf st] by (simp add: listing)
  have own: "map forget_id (filter (\<lambda>i. userId i = a) (items (run pf cfg rs st))) =
      map forget_id (filter (\<lambda>i. userId i = a)
        (items (run pf cfg (filter (acts_as cfg a) rs) st)))"
    by (rule own_requests_decide) simp
  from created others own show ?thesis
    by (simp add: listing) blast
qed


theorem listing_isolation_witness:
  "identity cfg0 env0 as_ann = Some 0 \<and> fault env0 ItemFind = None \<and>
   map (\<lambda>x. identity cfg0 (fst x) (snd (snd x))) interleaved = [Some 0, Some 1, Some 0] \<and>
   fst (handle pf0 cfg0 env0 ListItems as_ann (run pf0 cfg0 interleaved st0)) =
     Responded (200, ItemDocs [coat [''summer'', ''fall''],
                               (coat [''summer'', ''fall''])\<lparr>item_id := 2\<rparr>]) \<and>
   fst (handle pf0 cfg0 env0 ListItems as_ann
          (run pf0 cfg0 [(env0, CreateItem, bob_upload)] st0)) =
     fst (handle pf0 cfg0 env0 ListItems as_ann st0)"
proof -
  have a: "identity cfg0 env0 as_ann = Some 0"
    by (simp add: identity_def jwt_verify_def sample_defs)
  have f: "fault env0 ItemFind = None"
    by (simp add: sample_defs)
  have ids: "map (\<lambda>x. identity cfg0 (fst x) (snd (snd x))) interleaved = [Some 0, Some 1, Some 0]"
    by (simp add: identity_def jwt_verify_def sample_defs)
  have run: "items (run pf0 cfg0 interleaved st0) =
      [coat [''summer'', ''fall''],
       (coat [''summer'', ''fall''])\<lparr>item_id := 1, userId := 1\<rparr>,
       (coat [''summer'', ''fall''])\<lparr>item_id := 2\<rparr>]"
    by (simp add: model_defs sample_defs)
  have bob: "\<forall>x \<in> set [(env0, CreateItem, bob_upload)]. \<not> acts_as cfg0 0 x"
    by (simp add: acts_as_def identity_def jwt_verify_def sample_defs)
  from listing_isolation [OF a f, of pf0 interleaved st0]
  have "fst (handle pf0 cfg0 env0 ListItems as_ann (run pf0 cfg0 interleaved st0)) =
      Responded (200, ItemDocs (filter (\<lambda>i. userId i = 0)
        (items (run pf0 cfg0 interleaved st0))))"
    by blast
  then have mine: "fst (handle pf0 cfg0 env0 ListItems as_ann (run pf0 cfg0 interleaved st0)) =
      Responded (200, ItemDocs [coat [''summer'', ''fall''],
                                (coat [''summer'', ''fall''])\<lparr>item_id := 2\<rparr>])"
    by (simp add: run coat_def)
  from listing_isolation [OF a f, of pf0 "[(env0, CreateItem, bob_upload)]" st0] bob
  have "fst (handle pf0 cfg0 env0 ListItems as_ann
          (run pf0 cfg0 [(env0, CreateItem, bob_upload)] st0)) =
        fst (handle pf0 cfg0 env0 ListItems as_ann st0)"
    by blast
  with a f ids mine show ?thesis
    by blast
qed

subsection \<open>The answers of register and login\<close>

lemma register_no_body:
  assumes "body req = None"
  shows "register cfg e req st = (Responded (500, ErrorMessage (TypeError ''firstName'')), st)"
  using assms by (simp add: register_def register_try_def catch_error_def)

lemma register_lookup_rejected:
  assumes "body req = Some b" and "truthy (b ''firstName'')" and "truthy (b ''lastName'')"
    and "truthy (b ''email'')" and "truthy (b ''password'')"
    and "fault e UserFindOne = Some m"
  shows "register cfg e req st =
           (Responded (500, ErrorMessage (MongoError m)), sent UserFindOne st)"
  using assms
  by (simp add: register_def register_try_def catch_error_def User_findOne_def Let_def)

lemma register_save:
  assumes "body req = Some b" and "b ''firstName'' = Some f" and "f \<noteq> []"
    and "b ''lastName'' = Some l" and "l \<noteq> []" and "b ''email'' = Some a" and "a \<noteq> []"
    and "b ''password'' = Some p" and "p \<noteq> []"
    and "fault e UserFindOne = None" and "find (\<lambda>u. email u = a) (users st) = None"
  shows "register cfg e req st =
           (case fault e UserSave of
              Some m \<Rightarrow>
                (Responded (500, ErrorMessage (MongoError m)),
                 st\<lparr>next_id := Suc (next_id st), trace := trace st @ [UserFindOne, UserSave]\<rparr>)
            | None \<Rightarrow>
                (Responded (200, TokenBody (Signed (jwt_secret cfg)
                   \<lparr>claim_id = next_id st, claim_iat = clock e,
                    claim_exp = clock e + 2592000\<rparr>)),
                 st\<lparr>users := users st @
                      [\<lparr>user_id = next_id st, firstName = f, lastName = l, email = a,
                        password = Bcrypt 10 (salt e) p, location = ''New Delhi, India''\<rparr>],
                    next_id := Suc (next_id st),
                    trace := trace st @ [UserFindOne, UserSave]\<rparr>))"
  using assms
  by (simp add: register_def register_try_def catch_error_def Let_def truthy_def
      User_findOne_def User_save_def User_invalid_paths_def sent_def bcrypt_hash_def
      bcrypt_genSalt_def jwt_sign_def expiresIn_30d_def split: option.splits)

lemma register_success:
  assumes "register cfg e req st = (Responded (200, x), st')"
  shows "\<exists>b f l a p. body req = Some b \<and> b ''firstName'' = Some f \<and>
           b ''lastName'' = Some l \<and> b ''email'' = Some a \<and> b ''password'' = Some p \<and>
           users st' = users st @
             [\<lparr>user_id = next_id st, firstName = f, lastName = l, email = a,
               password = Bcrypt 10 (salt e) p, location = ''New Delhi, India''\<rparr>] \<and>
           x = TokenBody (Signed (jwt_secret cfg)
                 \<lparr>claim_id = next_id st, claim_iat = clock e,
                  claim_exp = clock e + expiresIn_30d\<rparr>)"
proof -
  from assms obtain b where b: "body req = Some b"
    by (cases "body req") (auto simp: register_def register_try_def catch_error_def)
  from assms b have present: "truthy (b ''firstName'')" "truthy (b ''lastName'')"
    "truthy (b ''email'')" "truthy (b ''password'')"
    by (auto simp: register_def register_try_def catch_error_def Let_def split: if_splits)
  then obtain f l a p where fields: "b ''firstName'' = Some f"
    "b ''lastName'' = Some l" "b ''email'' = Some a"
    "b ''password'' = Some p" "f \<noteq> []" "l \<noteq> []" "a \<noteq> []" "p \<noteq> []"
    by (auto simp: truthy_def split: option.splits)
  from assms b fields have "users st' = users st @
      [\<lparr>user_id = next_id st, firstName = f, lastName = l, email = a,
        password = Bcrypt 10 (salt e) p, location = ''New Delhi, India''\<rparr>] \<and>
      x = TokenBody (Signed (jwt_secret cfg)
            \<lparr>claim_id = next_id st, claim_iat = clock e, claim_exp = clock e + expiresIn_30d\<rparr>)"
    by (auto simp: register_def register_try_def catch_error_def Let_def truthy_def
        User_findOne_def User_save_def User_invalid_paths_def sent_def bcrypt_hash_def
        bcrypt_genSalt_def jwt_sign_def split: option.splits if_splits)
  with b fields show ?thesis by blast
qed

text \<open>The answer of login, case by case.\<close>

lemma login_no_body:
  assumes "body req = None"
  shows "login cfg e req st = (Responded (500, ErrorMessage (TypeError ''email'')), st)"
  using assms by (simp add: login_def login_try_def catch_error_def)

lemma login_lookup_rejected:
  assumes "body req = Some b" and "fault e UserFindOne = Some m"
  shows "login cfg e req st =
           (Responded (500, ErrorMessage (MongoError m)), sent UserFindOne st)"
  using assms by (simp add: login_def login_try_def catch_error_def User_findOne_def)


lemma login_known:
  assumes "body req = Some b" and "fault e UserFindOne = None"
    and "b ''email'' = Some a" and "find (\<lambda>u. email u = a) (users st) = Some u"
  shows "login cfg e req st =
           (case b ''password'' of
              None \<Rightarrow> (Responded (500, ErrorMessage BcryptError), sent UserFindOne st)
            | Some p \<Rightarrow>
                if (\<exists>r s. password u = Bcrypt r s p) then
                  (Responded (200, TokenBody (Signed (jwt_secret cfg)
                     \<lparr>claim_id = user_id u, claim_iat = clock e,
                      claim_exp = clock e + 2592000\<rparr>)), sent UserFindOne st)
                else (Responded (400, Msg ''Invalid credentials''), sent UserFindOne st))"
  using assms
  by (auto simp: login_def login_try_def catch_error_def User_findOne_def bcrypt_compare_def
      jwt_sign_def expiresIn_30d_def split: option.splits stored_string.splits)


subsection \<open>Stored passwords\<close>
























subsection \<open>Tokens\<close>

lemma login_success:
  assumes "login cfg e req st = (Responded (200, x), st')"
  shows "\<exists>u b. u \<in> set (users st') \<and> body req = Some b \<and> b ''email'' = Some (email u) \<and>
           x = TokenBody (Signed (jwt_secret cfg)
                 \<lparr>claim_id = user_id u, claim_iat = clock e,
                  claim_exp = clock e + expiresIn_30d\<rparr>)"
proof -
  from assms obtain b where b: "body req = Some b"
    by (cases "body req") (auto simp: login_no_body)
  from assms b obtain u where u: "find (\<lambda>u. email u = the (b ''email'')) (users st) = Some u"
    "b ''email'' \<noteq> None" "users st' = users st"
    "x = TokenBody (jwt_sign (user_id u) (jwt_secret cfg) expiresIn_30d (clock e))"
    by (auto simp: login_def login_try_def catch_error_def User_findOne_def sent_def
        split: option.splits sum.splits if_splits)
  from u(1) have "u \<in> set (users st)" and "email u = the (b ''email'')"
    by (auto simp: find_Some_iff in_set_conv_nth)
  with u b show ?thesis
    by (auto simp: jwt_sign_def)
qed

lemma signed_token_lifetime:
  "jwt_verify (Signed secret c) secret now =
     (if now < claim_exp c then Inr c else Inl TokenExpiredError)"
  by (simp add: jwt_verify_def)

text \<open>
  C4 (as the verifier has it). A registration with four non-empty fields and a new email,
  and a login with the email and password of a stored user, are answered (the store
  permitting) with a token signed with the configured secret that carries the user's
  identifier, the instant of issuance and an expiration instant 30 days (2592000
  seconds) later; every token either route answers with is of that form. Such a token
  verifies at issuance and at every instant before its expiration instant, and the gate
  then lets the request through with that claim; at the expiration instant and after it,
  verification fails with the expiry error and the gate answers 400.
\<close>

theorem token_lifetime:
  "(\<forall>b f l a p. body req = Some b \<and> b ''firstName'' = Some f \<and> f \<noteq> [] \<and>
        b ''lastName'' = Some l \<and> l \<noteq> [] \<and> b ''email'' = Some a \<and> a \<noteq> [] \<and>
        b ''password'' = Some p \<and> p \<noteq> [] \<and> fault e UserFindOne = None \<and>
        find (\<lambda>u. email u = a) (users st) = None \<and> fault e UserSave = None \<longrightarrow>
      fst (handle pf cfg e Register req st) =
        Responded (200, TokenBody (Signed (jwt_secret cfg)
          \<lparr>claim_id = next_id st, claim_iat = clock e, claim_exp = clock e + 2592000\<rparr>)) \<and>
      (\<exists>u. users (snd (handle pf cfg e Register req st)) = users st @ [u] \<and>
           user_id u = next_id st \<and> email u = a)) \<and>
   (\<forall>b a u p k s. body req = Some b \<and> fault e UserFindOne = None \<and>
        b ''email'' = Some a \<and> find (\<lambda>u. email u = a) (users st) = Some u \<and>
        b ''password'' = Some p \<and> password u = Bcrypt k s p \<longrightarrow>
      handle pf cfg e Login req st =
        (Responded (200, TokenBody (Signed (jwt_secret cfg)
           \<lparr>claim_id = user_id u, claim_iat = clock e, claim_exp = clock e + 2592000\<rparr>)),
         sent UserFindOne st)) \<and>
   (\<forall>r x st'. (r = Register \<or> r = Login) \<and>
        handle pf cfg e r req st = (Responded (200, x), st') \<longrightarrow>
      (\<exists>u b. u \<in> set (users st') \<and> body req = Some b \<and> b ''email'' = Some (email u) \<and>
         x = TokenBody (Signed (jwt_secret cfg)
               \<lparr>claim_id = user_id u, claim_iat = clock e,
                claim_exp = clock e + 2592000\<rparr>))) \<and>
   (\<forall>uid now.
      jwt_verify (Signed (jwt_secret cfg)
          \<lparr>claim_id = uid, claim_iat = clock e, claim_exp = clock e + 2592000\<rparr>)
        (jwt_secret cfg) now =
      (if now < clock e + 2592000
       then Inr \<lparr>claim_id = uid, claim_iat = clock e, claim_exp = clock e + 2592000\<rparr>
       else Inl TokenExpiredError)) \<and>
   (\<forall>uid r' e' req' st1. protected_route r' \<and>
        x_auth_token req' = Some (Signed (jwt_secret cfg)
          \<lparr>claim_id = uid, claim_iat = clock e, claim_exp = clock e + 2592000\<rparr>) \<longrightarrow>
      handle pf cfg e' r' req' st1 =
        (if clock e' < clock e + 2592000
         then handler pf cfg e' r'
                (req'\<lparr>user := Some \<lparr>claim_id = uid, claim_iat = clock e,
                                    claim_exp = clock e + 2592000\<rparr>\<rparr>) st1
         else (Responded (400, Msg ''Token is not valid''), st1)))"
proof -
  have c1: "\<forall>b f l a p. body req = Some b \<and> b ''firstName'' = Some f \<and> f \<noteq> [] \<and>
        b ''lastName'' = Some l \<and> l \<noteq> [] \<and> b ''email'' = Some a \<and> a \<noteq> [] \<and>
        b ''password'' = Some p \<and> p \<noteq> [] \<and> fault e UserFindOne = None \<and>
        find (\<lambda>u. email u = a) (users st) = None \<and> fault e UserSave = None \<longrightarrow>
      fst (handle pf cfg e Register req st) =
        Responded (200, TokenBody (Signed (jwt_secret cfg)
          \<lparr>claim_id = next_id st, claim_iat = clock e, claim_exp = clock e + 2592000\<rparr>)) \<and>
      (\<exists>u. users (snd (handle pf cfg e Register req st)) = users st @ [u] \<and>
           user_id u = next_id st \<and> email u = a)"
  proof (intro allI impI)
    fix b f l a p
    assume h: "body req = Some b \<and> b ''firstName'' = Some f \<and> f \<noteq> [] \<and>
        b ''lastName'' = Some l \<and> l \<noteq> [] \<and> b ''email'' = Some a \<and> a \<noteq> [] \<and>
        b ''password'' = Some p \<and> p \<noteq> [] \<and> fault e UserFindOne = None \<and>
        find (\<lambda>u. email u = a) (users st) = None \<and> fault e UserSave = None"
    then have "register cfg e req st =
        (Responded (200, TokenBody (Signed (jwt_secret cfg)
           \<lparr>claim_id = next_id st, claim_iat = clock e, claim_exp = clock e + 2592000\<rparr>)),
         st\<lparr>users := users st @
              [\<lparr>user_id = next_id st, firstName = f, lastName = l, email = a,
                password = Bcrypt 10 (salt e) p, location = ''New Delhi, India''\<rparr>],
            next_id := Suc (next_id st),
            trace := trace st @ [UserFindOne, UserSave]\<rparr>)"
      using register_save [of req b f l a p e st cfg] by simp
    then show "fst (handle pf cfg e Register req st) =
        Responded (200, TokenBody (Signed (jwt_secret cfg)
          \<lparr>claim_id = next_id st, claim_iat = clock e, claim_exp = clock e + 2592000\<rparr>)) \<and>
      (\<exists>u. users (snd (handle pf cfg e Register req st)) = users st @ [u] \<and>
           user_id u = next_id st \<and> email u = a)"
      by (simp add: route_defs)
  qed
  have c2: "\<forall>b a u p k s. body req = Some b \<and> fault e UserFindOne = None \<and>
        b ''email'' = Some a \<and> find (\<lambda>u. email u = a) (users st) = Some u \<and>
        b ''password'' = Some p \<and> password u = Bcrypt k s p \<longrightarrow>
      handle pf cfg e Login req st =
        (Responded (200, TokenBody (Signed (jwt_secret cfg)
           \<lparr>claim_id = user_id u, claim_iat = clock e, claim_exp = clock e + 2592000\<rparr>)),
         sent UserFindOne st)"
  proof (intro allI impI)
    fix b a u p k s
    assume h: "body req = Some b \<and> fault e UserFindOne = None \<and>
        b ''email'' = Some a \<and> find (\<lambda>u. email u = a) (users st) = Some u \<and>
        b ''password'' = Some p \<and> password u = Bcrypt k s p"
    then show "handle pf cfg e Login req st =
        (Responded (200, TokenBody (Signed (jwt_secret cfg)
           \<lparr>claim_id = user_id u, claim_iat = clock e, claim_exp = clock e + 2592000\<rparr>)),
         sent UserFindOne st)"
      using login_known [of req b e a st u cfg] by (simp add: route_defs)
  qed
  have c3: "\<forall>r x st'. (r = Register \<or> r = Login) \<and>
        handle pf cfg e r req st = (Responded (200, x), st') \<longrightarrow>
      (\<exists>u b. u \<in> set (users st') \<and> body req = Some b \<and> b ''email'' = Some (email u) \<and>
         x = TokenBody (Signed (jwt_secret cfg)
               \<lparr>claim_id = user_id u, claim_iat = clock e,
                claim_exp = clock e + 2592000\<rparr>))"
  proof (intro allI impI)
    fix r x st'
    assume h: "(r = Register \<or> r = Login) \<and>
        handle pf cfg e r req st = (Responded (200, x), st')"
    show "\<exists>u b. u \<in> set (users st') \<and> body req = Some b \<and> b ''email'' = Some (email u) \<and>
        x = TokenBody (Signed (jwt_secret cfg)
              \<lparr>claim_id = user_id u, claim_iat = clock e, claim_exp = clock e + 2592000\<rparr>)"
    proof (cases "r = Register")
      case True
      with h have "register cfg e req st = (Responded (200, x), st')"
        by (simp add: route_defs)
      from register_success [OF this] show ?thesis
        by (auto simp: expiresIn_30d_def)
    next
      case False
      with h have "login cfg e req st = (Responded (200, x), st')"
        by (auto simp: route_defs)
      from login_success [OF this] show ?thesis
        by (simp add: expiresIn_30d_def)
    qed
  qed
  have c4: "\<forall>uid now.
      jwt_verify (Signed (jwt_secret cfg)
          \<lparr>claim_id = uid, claim_iat = clock e, claim_exp = clock e + 2592000\<rparr>)
        (jwt_secret cfg) now =
      (if now < clock e + 2592000
       then Inr \<lparr>claim_id = uid, claim_iat = clock e, claim_exp = clock e + 2592000\<rparr>
       else Inl TokenExpiredError)"
    by (simp add: signed_token_lifetime)
  have c5: "\<forall>uid r' e' req' st1. protected_route r' \<and>
        x_auth_token req' = Some (Signed (jwt_secret cfg)
          \<lparr>claim_id = uid, claim_iat = clock e, claim_exp = clock e + 2592000\<rparr>) \<longrightarrow>
      handle pf cfg e' r' req' st1 =
        (if clock e' < clock e + 2592000
         then handler pf cfg e' r'
                (req'\<lparr>user := Some \<lparr>claim_id = uid, claim_iat = clock e,
                                    claim_exp = clock e + 2592000\<rparr>\<rparr>) st1
         else (Responded (400, Msg ''Token is not valid''), st1))"
    by (simp add: handle_def auth_def token_falsy_def signed_token_lifetime)
  show ?thesis
    by (intro conjI) (rule c1 c2 c3 c4 c5)+
qed

theorem token_lifetime_witness:
  "handle pf0 cfg0 env0 Register ann_signup st0 = (Responded (200, TokenBody ann_token), registered) \<and>
   find (\<lambda>u. email u = ''ann@x.org'') (users registered) = Some ann \<and>
   password ann = Bcrypt 10 ''NaCl'' ''hunter2'' \<and>
   handle pf0 cfg0 env0 Login ann_login registered =
     (Responded (200, TokenBody ann_token), sent UserFindOne registered) \<and>
   ann_token = Signed (jwt_secret cfg0) ann_claim \<and>
   user_id ann = claim_id ann_claim \<and> claim_exp ann_claim = claim_iat ann_claim + 2592000 \<and>
   jwt_verify ann_token (jwt_secret cfg0) 1000 = Inr ann_claim \<and>
   jwt_verify ann_token (jwt_secret cfg0) 2592999 = Inr ann_claim"
proof -
  let ?s = "[''firstName'' \<mapsto> ''Ann'', ''lastName'' \<mapsto> ''Lee'',
             ''email'' \<mapsto> ''ann@x.org'', ''password'' \<mapsto> ''hunter2'']"
  let ?l = "[''email'' \<mapsto> ''ann@x.org'', ''password'' \<mapsto> ''hunter2'']"
  have reg: "handle pf0 cfg0 env0 Register ann_signup st0 =
      (Responded (200, TokenBody ann_token), registered)"
    by (simp add: model_defs sample_defs)
  have signup: "body ann_signup = Some ?s \<and> ?s ''firstName'' = Some ''Ann'' \<and> ''Ann'' \<noteq> [] \<and>
      ?s ''lastName'' = Some ''Lee'' \<and> ''Lee'' \<noteq> [] \<and> ?s ''email'' = Some ''ann@x.org'' \<and>
      ''ann@x.org'' \<noteq> [] \<and> ?s ''password'' = Some ''hunter2'' \<and> ''hunter2'' \<noteq> [] \<and>
      fault env0 UserFindOne = None \<and>
      find (\<lambda>u. email u = ''ann@x.org'') (users st0) = None \<and> fault env0 UserSave = None"
    by (simp add: sample_defs)
  have signin: "body ann_login = Some ?l \<and> fault env0 UserFindOne = None \<and>
      ?l ''email'' = Some ''ann@x.org'' \<and>
      find (\<lambda>u. email u = ''ann@x.org'') (users registered) = Some ann \<and>
      ?l ''password'' = Some ''hunter2'' \<and> password ann = Bcrypt 10 ''NaCl'' ''hunter2''"
    by (simp add: sample_defs)
  have facts: "ann_token = Signed (jwt_secret cfg0) ann_claim \<and>
      user_id ann = claim_id ann_claim \<and> claim_exp ann_claim = claim_iat ann_claim + 2592000 \<and>
      clock env0 = 1000 \<and> next_id st0 = 0 \<and>
      ann_claim = \<lparr>claim_id = 0, claim_iat = 1000, claim_exp = 1000 + 2592000\<rparr>"
    by (simp add: sample_defs)
  note issue = token_lifetime [of ann_signup env0 st0 pf0 cfg0]
  from issue [THEN conjunct1] signup
  have issued: "fst (handle pf0 cfg0 env0 Register ann_signup st0) =
      Responded (200, TokenBody (Signed (jwt_secret cfg0)
        \<lparr>claim_id = next_id st0, claim_iat = clock env0, claim_exp = clock env0 + 2592000\<rparr>))"
    by blast
  note again = token_lifetime [of ann_login env0 registered pf0 cfg0]
  from again [THEN conjunct2, THEN conjunct1] signin
  have login: "handle pf0 cfg0 env0 Login ann_login registered =
      (Responded (200, TokenBody (Signed (jwt_secret cfg0)
         \<lparr>claim_id = user_id ann, claim_iat = clock env0, claim_exp = clock env0 + 2592000\<rparr>)),
       sent UserFindOne registered)"
    by blast
  from issue [THEN conjunct2, THEN conjunct2, THEN conjunct2, THEN conjunct1]
  have verify: "jwt_verify (Signed (jwt_secret cfg0)
          \<lparr>claim_id = 0, claim_iat = clock env0, claim_exp = clock env0 + 2592000\<rparr>)
        (jwt_secret cfg0) now =
      (if now < clock env0 + 2592000
       then Inr \<lparr>claim_id = 0, claim_iat = clock env0, claim_exp = clock env0 + 2592000\<rparr>
       else Inl TokenExpiredError)" for now
    by blast
  from verify [of 1000] verify [of 2592999] facts
  have valid: "jwt_verify ann_token (jwt_secret cfg0) 1000 = Inr ann_claim \<and>
      jwt_verify ann_token (jwt_secret cfg0) 2592999 = Inr ann_claim"
    by simp
  from login facts have login': "handle pf0 cfg0 env0 Login ann_login registered =
      (Responded (200, TokenBody ann_token), sent UserFindOne registered)"
    by (simp add: ann_def)
  from reg signin facts valid login' show ?thesis
    by simp
qed

text \<open>
  The claim as written keeps the token valid up to its expiration instant; at that very
  instant the verifier already answers with the expiry error and the gate with 400.
\<close>

theorem token_expiry_instant_counterexample:
  "handle pf0 cfg0 env0 Register ann_signup st0 = (Responded (200, TokenBody ann_token), registered) \<and>
   ann_token = Signed ''s3cret'' \<lparr>claim_id = 0, claim_iat = 1000, claim_exp = 2593000\<rparr> \<and>
   clock at_expiry = 2593000 \<and>
   jwt_verify ann_token (jwt_secret cfg0) (clock at_expiry) = Inl TokenExpiredError \<and>
   handle pf0 cfg0 at_expiry ListItems as_ann registered =
     (Responded (400, Msg ''Token is not valid''), registered)"
  by (simp add: model_defs sample_defs)

subsection \<open>Failures inside handlers\<close>

lemma dashboard_route:
  assumes "x_auth_token req = Some t" and "jwt_verify t (jwt_secret cfg) (clock e) = Inr c"
  shows "handle pf cfg e DashboardStats req st = dashboard_stats e (req\<lparr>user := Some c\<rparr>) st"
  using assms by (simp add: route_defs authenticated)

lemma create_route:
  assumes "x_auth_token req = Some t" and "jwt_verify t (jwt_secret cfg) (clock e) = Inr c"
    and "image req = Inr f"
  shows "handle pf cfg e CreateItem req st =
           create_item pf e (req\<lparr>user := Some c, req_file := f\<rparr>) st"
  using assms by (simp add: route_defs authenticated upload_single_def)

lemma dashboard_lookup_rejected:
  assumes "user req = Some c" and "fault e UserFindById = Some m"
  shows "dashboard_stats e req st =
           (Responded (500, Msg ''Server Error''), sent UserFindById st)"
  using assms
  by (simp add: dashboard_stats_def dashboard_stats_try_def catch_server_error_def
      User_findById_def)

lemma dashboard_count_rejected:
  assumes "user req = Some c" and "fault e UserFindById = None"
    and "fault e ItemCountDocuments = Some m"
  shows "dashboard_stats e req st =
           (Responded (500, Msg ''Server Error''),
            st\<lparr>trace := trace st @ [UserFindById, ItemCountDocuments]\<rparr>)"
  using assms
  by (simp add: dashboard_stats_def dashboard_stats_try_def catch_server_error_def
      User_findById_def Item_countDocuments_def sent_def)

lemma dashboard_user_missing:
  assumes "user req = Some c" and "fault e UserFindById = None"
    and "fault e ItemCountDocuments = None"
    and "find (\<lambda>u. user_id u = claim_id c) (users st) = None"
  shows "dashboard_stats e req st =
           (Responded (500, Msg ''Server Error''),
            st\<lparr>trace := trace st @ [UserFindById, ItemCountDocuments, ItemCountDocuments]\<rparr>)"
  using assms
  by (simp add: dashboard_stats_def dashboard_stats_try_def catch_server_error_def
      User_findById_def Item_countDocuments_def sent_def)

lemma Item_save_invalid:
  assumes "Item_invalid_paths pf nm url cat v w \<noteq> []"
  shows "Item_save pf e iid uid nm url cat sub v col w st =
           (Inl (ValidationError (Item_invalid_paths pf nm url cat v w)), st)"
  using assms by (auto simp: Item_save_def split: option.splits)

lemma Item_save_rejected:
  assumes "Item_invalid_paths pf nm url cat v w = []" and "fault e ItemSave = Some m"
  shows "Item_save pf e iid uid nm url cat sub v col w st =
           (Inl (MongoError m), sent ItemSave st)"
  using assms
  by (auto simp: Item_save_def Item_invalid_paths_def truthy_def
      split: option.splits if_splits)

lemma create_item_parse_failed:
  assumes "body req = Some b" and "user req = Some c" and "req_file req = Some path"
    and "(case b ''seasons'' of None \<Rightarrow> Inr (JArr [])
          | Some s \<Rightarrow> if s = [] then Inr (JArr []) else JSON_parse pf s) = Inl err"
  shows "create_item pf e req st = (Responded (500, ErrorMessage err), st)"
  using assms by (simp add: create_item_def create_item_try_def catch_error_def)

lemma create_item_no_file:
  assumes "body req = Some b" and "user req = Some c" and "req_file req = None"
  shows "create_item pf e req st = (Responded (500, ErrorMessage (TypeError ''path'')), st)"
  using assms by (simp add: create_item_def create_item_try_def catch_error_def)

lemma create_item_saved:
  assumes "body req = Some b" and "user req = Some c" and "req_file req = Some path"
    and "(case b ''seasons'' of None \<Rightarrow> Inr (JArr [])
          | Some s \<Rightarrow> if s = [] then Inr (JArr []) else JSON_parse pf s) = Inr v"
  shows "create_item pf e req st =
           catch_error
             (case Item_save pf e (next_id st) (claim_id c) (b ''name'') path (b ''category'')
                     (b ''subCategory'') v (b ''color'') (Number pf (b ''warmth''))
                     (st\<lparr>next_id := Suc (next_id st)\<rparr>) of
                (Inl err, st1) \<Rightarrow> (Inl err, st1)
              | (Inr saved, st1) \<Rightarrow> (Inr (200, ItemDoc saved), st1))"
  using assms by (simp add: create_item_def create_item_try_def)

lemma create_item_invalid:
  assumes "body req = Some b" and "user req = Some c" and "req_file req = Some path"
    and "(case b ''seasons'' of None \<Rightarrow> Inr (JArr [])
          | Some s \<Rightarrow> if s = [] then Inr (JArr []) else JSON_parse pf s) = Inr v"
    and "Item_invalid_paths pf (b ''name'') path (b ''category'') v
           (Number pf (b ''warmth'')) \<noteq> []"
  shows "create_item pf e req st =
           (Responded (500, ErrorMessage (ValidationError
              (Item_invalid_paths pf (b ''name'') path (b ''category'') v
                 (Number pf (b ''warmth''))))),
            st\<lparr>next_id := Suc (next_id st)\<rparr>)"
  using assms
  by (simp add: create_item_saved [OF assms(1-4)] Item_save_invalid catch_error_def)

lemma create_item_save_rejected:
  assumes "body req = Some b" and "user req = Some c" and "req_file req = Some path"
    and "(case b ''seasons'' of None \<Rightarrow> Inr (JArr [])
          | Some s \<Rightarrow> if s = [] then Inr (JArr []) else JSON_parse pf s) = Inr v"
    and "Item_invalid_paths pf (b ''name'') path (b ''category'') v
           (Number pf (b ''warmth'')) = []"
    and "fault e ItemSave = Some m"
  shows "create_item pf e req st =
           (Responded (500, ErrorMessage (MongoError m)),
            st\<lparr>next_id := Suc (next_id st), trace := trace st @ [ItemSave]\<rparr>)"
  using assms
  by (simp add: create_item_saved [OF assms(1-4)] Item_save_rejected catch_error_def sent_def)

text \<open>
  C9 (as the code has it). In the register, login and item-creation handlers, an error
  thrown while handling is caught by the handler and answered with status 500 and the
  error's own message: the missing body, the rejected lookup and the rejected save of
  register; the missing body, the rejected lookup and the missing password of login; the
  missing body, the missing file, the seasons that do not parse, the document that does
  not validate and the rejected save of item creation. In the dashboard handler the
  rejected lookup, the rejected count and the missing user record are caught and answered
  with status 500 and the fixed message "Server Error". None of the four lets an error
  leave the handler, and in each of these cases the users and the Items are as before.
\<close>

theorem handlers_catch:
  "(register_try cfg e req st = (Inl err, st') \<longrightarrow>
      handle pf cfg e Register req st = (Responded (500, ErrorMessage err), st')) \<and>
   (login_try cfg e req st = (Inl err, st') \<longrightarrow>
      handle pf cfg e Login req st = (Responded (500, ErrorMessage err), st')) \<and>
   (create_item_try pf e req st = (Inl err, st') \<longrightarrow>
      create_item pf e req st = (Responded (500, ErrorMessage err), st')) \<and>
   (dashboard_stats_try e req st = (Inl err, st') \<longrightarrow>
      dashboard_stats e req st = (Responded (500, Msg ''Server Error''), st')) \<and>
   (\<exists>resp1 resp2 resp3 resp4.
      fst (register cfg e req st) = Responded resp1 \<and>
      fst (login cfg e req st) = Responded resp2 \<and>
      fst (create_item pf e req st) = Responded resp3 \<and>
      fst (dashboard_stats e req st) = Responded resp4) \<and>
   (body req = None \<longrightarrow>
      handle pf cfg e Register req st =
        (Responded (500, ErrorMessage (TypeError ''firstName'')), st) \<and>
      handle pf cfg e Login req st =
        (Responded (500, ErrorMessage (TypeError ''email'')), st)) \<and>
   (\<forall>b m. body req = Some b \<and> fault e UserFindOne = Some m \<longrightarrow>
      handle pf cfg e Login req st =
        (Responded (500, ErrorMessage (MongoError m)), sent UserFindOne st) \<and>
      (truthy (b ''firstName'') \<and> truthy (b ''lastName'') \<and>
       truthy (b ''email'') \<and> truthy (b ''password'') \<longrightarrow>
         handle pf cfg e Register req st =
           (Responded (500, ErrorMessage (MongoError m)), sent UserFindOne st))) \<and>
   (\<forall>b f l a p m. body req = Some b \<and> b ''firstName'' = Some f \<and> f \<noteq> [] \<and>
        b ''lastName'' = Some l \<and> l \<noteq> [] \<and> b ''email'' = Some a \<and> a \<noteq> [] \<and>
        b ''password'' = Some p \<and> p \<noteq> [] \<and> fault e UserFindOne = None \<and>
        find (\<lambda>u. email u = a) (users st) = None \<and> fault e UserSave = Some m \<longrightarrow>
      handle pf cfg e Register req st =
        (Responded (500, ErrorMessage (MongoError m)),
         st\<lparr>next_id := Suc (next_id st), trace := trace st @ [UserFindOne, UserSave]\<rparr>)) \<and>
   (\<forall>b a u. body req = Some b \<and> fault e UserFindOne = None \<and> b ''email'' = Some a \<and>
        find (\<lambda>u. email u = a) (users st) = Some u \<and> b ''password'' = None \<longrightarrow>
      handle pf cfg e Login req st =
        (Responded (500, ErrorMessage BcryptError), sent UserFindOne st)) \<and>
   (\<forall>t c. x_auth_token req = Some t \<and> jwt_verify t (jwt_secret cfg) (clock e) = Inr c \<longrightarrow>
      (\<forall>m. fault e UserFindById = Some m \<longrightarrow>
         handle pf cfg e DashboardStats req st =
           (Responded (500, Msg ''Server Error''), sent UserFindById st)) \<and>
      (\<forall>m. fault e UserFindById = None \<and> fault e ItemCountDocuments = Some m \<longrightarrow>
         handle pf cfg e DashboardStats req st =
           (Responded (500, Msg ''Server Error''),
            st\<lparr>trace := trace st @ [UserFindById, ItemCountDocuments]\<rparr>)) \<and>
      (fault e UserFindById = None \<and> fault e ItemCountDocuments = None \<and>
       find (\<lambda>u. user_id u = claim_id c) (users st) = None \<longrightarrow>
         handle pf cfg e DashboardStats req st =
           (Responded (500, Msg ''Server Error''),
            st\<lparr>trace := trace st @ [UserFindById, ItemCountDocuments, ItemCountDocuments]\<rparr>)) \<and>
      (\<forall>f. image req = Inr f \<longrightarrow>
         (body req = None \<longrightarrow>
            handle pf cfg e CreateItem req st =
              (Responded (500, ErrorMessage (TypeError ''name'')), st)) \<and>
         (\<forall>b. body req = Some b \<longrightarrow>
            (f = None \<longrightarrow>
               handle pf cfg e CreateItem req st =
                 (Responded (500, ErrorMessage (TypeError ''path'')), st)) \<and>
            (\<forall>path. f = Some path \<longrightarrow>
               (\<forall>x. (case b ''seasons'' of None \<Rightarrow> Inr (JArr [])
                      | Some s \<Rightarrow> if s = [] then Inr (JArr []) else JSON_parse pf s) = Inl x \<longrightarrow>
                  handle pf cfg e CreateItem req st = (Responded (500, ErrorMessage x), st)) \<and>
               (\<forall>v. (case b ''seasons'' of None \<Rightarrow> Inr (JArr [])
                      | Some s \<Rightarrow> if s = [] then Inr (JArr []) else JSON_parse pf s) = Inr v \<longrightarrow>
                  (Item_invalid_paths pf (b ''name'') path (b ''category'') v
                     (Number pf (b ''warmth'')) \<noteq> [] \<longrightarrow>
                     handle pf cfg e CreateItem req st =
                       (Responded (500, ErrorMessage (ValidationError
                          (Item_invalid_paths pf (b ''name'') path (b ''category'') v
                             (Number pf (b ''warmth''))))),
                        st\<lparr>next_id := Suc (next_id st)\<rparr>)) \<and>
                  (\<forall>m. Item_invalid_paths pf (b ''name'') path (b ''category'') v
                          (Number pf (b ''warmth'')) = [] \<and>
                        fault e ItemSave = Some m \<longrightarrow>
                     handle pf cfg e CreateItem req st =
                       (Responded (500, ErrorMessage (MongoError m)),
                        st\<lparr>next_id := Suc (next_id st),
                           trace := trace st @ [ItemSave]\<rparr>)))))))"
proof -
  have caught: "\<exists>resp. fst (catch_error x) = Responded resp"
    "\<exists>resp. fst (catch_server_error x) = Responded resp" for x
    by (auto simp: catch_error_def catch_server_error_def split: sum.splits)
  have c1: "register_try cfg e req st = (Inl err, st') \<longrightarrow>
      handle pf cfg e Register req st = (Responded (500, ErrorMessage err), st')"
    by (simp add: route_defs register_def catch_error_def)
  have c2: "login_try cfg e req st = (Inl err, st') \<longrightarrow>
      handle pf cfg e Login req st = (Responded (500, ErrorMessage err), st')"
    by (simp add: route_defs login_def catch_error_def)
  have c3: "create_item_try pf e req st = (Inl err, st') \<longrightarrow>
      create_item pf e req st = (Responded (500, ErrorMessage err), st')"
    by (simp add: create_item_def catch_error_def)
  have c4: "dashboard_stats_try e req st = (Inl err, st') \<longrightarrow>
      dashboard_stats e req st = (Responded (500, Msg ''Server Error''), st')"
    by (simp add: dashboard_stats_def catch_server_error_def)
  have c5: "\<exists>resp1 resp2 resp3 resp4.
      fst (register cfg e req st) = Responded resp1 \<and>
      fst (login cfg e req st) = Responded resp2 \<and>
      fst (create_item pf e req st) = Responded resp3 \<and>
      fst (dashboard_stats e req st) = Responded resp4"
    using caught [of "register_try cfg e req st"] caught [of "login_try cfg e req st"]
      caught [of "create_item_try pf e req st"] caught [of "dashboard_stats_try e req st"]
    by (simp add: register_def login_def create_item_def dashboard_stats_def)
  have c6: "body req = None \<longrightarrow>
      handle pf cfg e Register req st =
        (Responded (500, ErrorMessage (TypeError ''firstName'')), st) \<and>
      handle pf cfg e Login req st =
        (Responded (500, ErrorMessage (TypeError ''email'')), st)"
    by (simp add: route_defs register_no_body login_no_body)
  have c7: "\<forall>b m. body req = Some b \<and> fault e UserFindOne = Some m \<longrightarrow>
      handle pf cfg e Login req st =
        (Responded (500, ErrorMessage (MongoError m)), sent UserFindOne st) \<and>
      (truthy (b ''firstName'') \<and> truthy (b ''lastName'') \<and>
       truthy (b ''email'') \<and> truthy (b ''password'') \<longrightarrow>
         handle pf cfg e Register req st =
           (Responded (500, ErrorMessage (MongoError m)), sent UserFindOne st))"
    using login_lookup_rejected [of req _ e _ cfg st]
      register_lookup_rejected [of req _ e _ cfg st]
    by (simp add: route_defs)
  have c8: "\<forall>b f l a p m. body req = Some b \<and> b ''firstName'' = Some f \<and> f \<noteq> [] \<and>
        b ''lastName'' = Some l \<and> l \<noteq> [] \<and> b ''email'' = Some a \<and> a \<noteq> [] \<and>
        b ''password'' = Some p \<and> p \<noteq> [] \<and> fault e UserFindOne = None \<and>
        find (\<lambda>u. email u = a) (users st) = None \<and> fault e UserSave = Some m \<longrightarrow>
      handle pf cfg e Register req st =
        (Responded (500, ErrorMessage (MongoError m)),
         st\<lparr>next_id := Suc (next_id st), trace := trace st @ [UserFindOne, UserSave]\<rparr>)"
  proof (intro allI impI)
    fix b f l a p m
    assume "body req = Some b \<and> b ''firstName'' = Some f \<and> f \<noteq> [] \<and>
        b ''lastName'' = Some l \<and> l \<noteq> [] \<and> b ''email'' = Some a \<and> a \<noteq> [] \<and>
        b ''password'' = Some p \<and> p \<noteq> [] \<and> fault e UserFindOne = None \<and>
        find (\<lambda>u. email u = a) (users st) = None \<and> fault e UserSave = Some m"
    then show "handle pf cfg e Register req st =
        (Responded (500, ErrorMessage (MongoError m)),
         st\<lparr>next_id := Suc (next_id st), trace := trace st @ [UserFindOne, UserSave]\<rparr>)"
      using register_save [of req b f l a p e st cfg] by (simp add: route_defs)
  qed
  have c9: "\<forall>b a u. body req = Some b \<and> fault e UserFindOne = None \<and> b ''email'' = Some a \<and>
        find (\<lambda>u. email u = a) (users st) = Some u \<and> b ''password'' = None \<longrightarrow>
      handle pf cfg e Login req st =
        (Responded (500, ErrorMessage BcryptError), sent UserFindOne st)"
  proof (intro allI impI)
    fix b a u
    assume "body req = Some b \<and> fault e UserFindOne = None \<and> b ''email'' = Some a \<and>
        find (\<lambda>u. email u = a) (users st) = Some u \<and> b ''password'' = None"
    then show "handle pf cfg e Login req st =
        (Responded (500, ErrorMessage BcryptError), sent UserFindOne st)"
      using login_known [of req b e a st u cfg] by (simp add: route_defs)
  qed
  have c10: "\<forall>t c. x_auth_token req = Some t \<and> jwt_verify t (jwt_secret cfg) (clock e) = Inr c \<longrightarrow>
      (\<forall>m. fault e UserFindById = Some m \<longrightarrow>
         handle pf cfg e DashboardStats req st =
           (Responded (500, Msg ''Server Error''), sent UserFindById st)) \<and>
      (\<forall>m. fault e UserFindById = None \<and> fault e ItemCountDocuments = Some m \<longrightarrow>
         handle pf cfg e DashboardStats req st =
           (Responded (500, Msg ''Server Error''),
            st\<lparr>trace := trace st @ [UserFindById, ItemCountDocuments]\<rparr>)) \<and>
      (fault e UserFindById = None \<and> fault e ItemCountDocuments = None \<and>
       find (\<lambda>u. user_id u = claim_id c) (users st) = None \<longrightarrow>
         handle pf cfg e DashboardStats req st =
           (Responded (500, Msg ''Server Error''),
            st\<lparr>trace := trace st @ [UserFindById, ItemCountDocuments, ItemCountDocuments]\<rparr>)) \<and>
      (\<forall>f. image req = Inr f \<longrightarrow>
         (body req = None \<longrightarrow>
            handle pf cfg e CreateItem req st =
              (Responded (500, ErrorMessage (TypeError ''name'')), st)) \<and>
         (\<forall>b. body req = Some b \<longrightarrow>
            (f = None \<longrightarrow>
               handle pf cfg e CreateItem req st =
                 (Responded (500, ErrorMessage (TypeError ''path'')), st)) \<and>
            (\<forall>path. f = Some path \<longrightarrow>
               (\<forall>x. (case b ''seasons'' of None \<Rightarrow> Inr (JArr [])
                      | Some s \<Rightarrow> if s = [] then Inr (JArr []) else JSON_parse pf s) = Inl x \<longrightarrow>
                  handle pf cfg e CreateItem req st = (Responded (500, ErrorMessage x), st)) \<and>
               (\<forall>v. (case b ''seasons'' of None \<Rightarrow> Inr (JArr [])
                      | Some s \<Rightarrow> if s = [] then Inr (JArr []) else JSON_parse pf s) = Inr v \<longrightarrow>
                  (Item_invalid_paths pf (b ''name'') path (b ''category'') v
                     (Number pf (b ''warmth'')) \<noteq> [] \<longrightarrow>
                     handle pf cfg e CreateItem req st =
                       (Responded (500, ErrorMessage (ValidationError
                          (Item_invalid_paths pf (b ''name'') path (b ''category'') v
                             (Number pf (b ''warmth''))))),
                        st\<lparr>next_id := Suc (next_id st)\<rparr>)) \<and>
                  (\<forall>m. Item_invalid_paths pf (b ''name'') path (b ''category'') v
                          (Number pf (b ''warmth'')) = [] \<and>
                        fault e ItemSave = Some m \<longrightarrow>
                     handle pf cfg e CreateItem req st =
                       (Responded (500, ErrorMessage (MongoError m)),
                        st\<lparr>next_id := Suc (next_id st),
                           trace := trace st @ [ItemSave]\<rparr>))))))"
  proof (intro allI impI)
    fix t c
    assume "x_auth_token req = Some t \<and> jwt_verify t (jwt_secret cfg) (clock e) = Inr c"
    then have tok: "x_auth_token req = Some t" "jwt_verify t (jwt_secret cfg) (clock e) = Inr c"
      by simp_all
    note dash = dashboard_route [OF tok, of pf st]
    have u: "user (req\<lparr>user := Some c\<rparr>) = Some c"
      by simp
    have created: "handle pf cfg e CreateItem req st =
        create_item pf e (req\<lparr>user := Some c, req_file := f\<rparr>) st" if "image req = Inr f" for f
      using create_route [OF tok that] .
    have parts: "body (req\<lparr>user := Some c, req_file := f\<rparr>) = body req"
      "user (req\<lparr>user := Some c, req_file := f\<rparr>) = Some c"
      "req_file (req\<lparr>user := Some c, req_file := f\<rparr>) = f" for f
      by simp_all
    show "(\<forall>m. fault e UserFindById = Some m \<longrightarrow>
         handle pf cfg e DashboardStats req st =
           (Responded (500, Msg ''Server Error''), sent UserFindById st)) \<and>
      (\<forall>m. fault e UserFindById = None \<and> fault e ItemCountDocuments = Some m \<longrightarrow>
         handle pf cfg e DashboardStats req st =
           (Responded (500, Msg ''Server Error''),
            st\<lparr>trace := trace st @ [UserFindById, ItemCountDocuments]\<rparr>)) \<and>
      (fault e UserFindById = None \<and> fault e ItemCountDocuments = None \<and>
       find (\<lambda>u. user_id u = claim_id c) (users st) = None \<longrightarrow>
         handle pf cfg e DashboardStats req st =
           (Responded (500, Msg ''Server Error''),
            st\<lparr>trace := trace st @ [UserFindById, ItemCountDocuments, ItemCountDocuments]\<rparr>)) \<and>
      (\<forall>f. image req = Inr f \<longrightarrow>
         (body req = None \<longrightarrow>
            handle pf cfg e CreateItem req st =
              (Responded (500, ErrorMessage (TypeError ''name'')), st)) \<and>
         (\<forall>b. body req = Some b \<longrightarrow>
            (f = None \<longrightarrow>
               handle pf cfg e CreateItem req st =
                 (Responded (500, ErrorMessage (TypeError ''path'')), st)) \<and>
            (\<forall>path. f = Some path \<longrightarrow>
               (\<forall>x. (case b ''seasons'' of None \<Rightarrow> Inr (JArr [])
                      | Some s \<Rightarrow> if s = [] then Inr (JArr []) else JSON_parse pf s) = Inl x \<longrightarrow>
                  handle pf cfg e CreateItem req st = (Responded (500, ErrorMessage x), st)) \<and>
               (\<forall>v. (case b ''seasons'' of None \<Rightarrow> Inr (JArr [])
                      | Some s \<Rightarrow> if s = [] then Inr (JArr []) else JSON_parse pf s) = Inr v \<longrightarrow>
                  (Item_invalid_paths pf (b ''name'') path (b ''category'') v
                     (Number pf (b ''warmth'')) \<noteq> [] \<longrightarrow>
                     handle pf cfg e CreateItem req st =
                       (Responded (500, ErrorMessage (ValidationError
                          (Item_invalid_paths pf (b ''name'') path (b ''category'') v
                             (Number pf (b ''warmth''))))),
                        st\<lparr>next_id := Suc (next_id st)\<rparr>)) \<and>
                  (\<forall>m. Item_invalid_paths pf (b ''name'') path (b ''category'') v
                          (Number pf (b ''warmth'')) = [] \<and>
                        fault e ItemSave = Some m \<longrightarrow>
                     handle pf cfg e CreateItem req st =
                       (Responded (500, ErrorMessage (MongoError m)),
                        st\<lparr>next_id := Suc (next_id st),
                           trace := trace st @ [ItemSave]\<rparr>))))))"
    proof (intro conjI allI impI, goal_cases)
      case (1 m)
      then show ?case
        by (simp add: dash dashboard_lookup_rejected [OF u])
    next
      case (2 m)
      then show ?case
        by (simp add: dash dashboard_count_rejected [OF u])
    next
      case 3
      then show ?case
        by (simp add: dash dashboard_user_missing [OF u])
    next
      case (4 f)
      then show ?case
        by (simp add: created create_item_no_body)
    next
      case (5 f b)
      then show ?case
        by (simp add: created create_item_no_file [OF _ parts(2)])
    next
      case (6 f b path x)
      then show ?case
        by (simp add: created create_item_parse_failed [OF _ parts(2)])
    next
      case (7 f b path v)
      then show ?case
        using create_item_invalid [of "req\<lparr>user := Some c, req_file := f\<rparr>" b c path pf v e st]
        by (simp add: created)
    next
      case (8 f b path v m)
      then show ?case
        using create_item_save_rejected
          [of "req\<lparr>user := Some c, req_file := f\<rparr>" b c path pf v e m st]
        by (simp add: created)
    qed
  qed
  show ?thesis
    by (intro conjI) (rule c1 c2 c3 c4 c5 c6 c7 c8 c9 c10)+
qed

theorem handlers_catch_witness:
  "handle pf0 cfg0 env0 Login anonymous st0 =
     (Responded (500, ErrorMessage (TypeError ''email'')), st0) \<and>
   handle pf0 cfg0 down Register ann_signup st0 =
     (Responded (500, ErrorMessage (MongoError ''connection lost'')), sent UserFindOne st0) \<and>
   handle pf0 cfg0 save_fails Register ann_signup st0 =
     (Responded (500, ErrorMessage (MongoError ''write refused'')),
      st0\<lparr>next_id := Suc (next_id st0), trace := trace st0 @ [UserFindOne, UserSave]\<rparr>) \<and>
   handle pf0 cfg0 count_fails DashboardStats as_ann registered =
     (Responded (500, Msg ''Server Error''),
      registered\<lparr>trace := trace registered @ [UserFindById, ItemCountDocuments]\<rparr>) \<and>
   handle pf0 cfg0 save_fails CreateItem coat_upload registered =
     (Responded (500, ErrorMessage (MongoError ''write refused'')),
      registered\<lparr>next_id := Suc (next_id registered),
                 trace := trace registered @ [ItemSave]\<rparr>)"
proof -
  let ?s = "[''firstName'' \<mapsto> ''Ann'', ''lastName'' \<mapsto> ''Lee'',
             ''email'' \<mapsto> ''ann@x.org'', ''password'' \<mapsto> ''hunter2'']"
  have none: "body anonymous = None"
    by (simp add: sample_defs)
  from handlers_catch [of cfg0 env0 anonymous st0 _ _ pf0, THEN conjunct2, THEN conjunct2,
      THEN conjunct2, THEN conjunct2, THEN conjunct2, THEN conjunct1] none
  have one: "handle pf0 cfg0 env0 Login anonymous st0 =
      (Responded (500, ErrorMessage (TypeError ''email'')), st0)"
    by blast
  have lost: "body ann_signup = Some ?s \<and> fault down UserFindOne = Some ''connection lost'' \<and>
      truthy (?s ''firstName'') \<and> truthy (?s ''lastName'') \<and>
      truthy (?s ''email'') \<and> truthy (?s ''password'')"
    by (simp add: sample_defs truthy_def)
  from handlers_catch [of cfg0 down ann_signup st0 _ _ pf0, THEN conjunct2, THEN conjunct2,
      THEN conjunct2, THEN conjunct2, THEN conjunct2, THEN conjunct2, THEN conjunct1] lost
  have two: "handle pf0 cfg0 down Register ann_signup st0 =
      (Responded (500, ErrorMessage (MongoError ''connection lost'')), sent UserFindOne st0)"
    by blast
  have refused: "body ann_signup = Some ?s \<and> ?s ''firstName'' = Some ''Ann'' \<and> ''Ann'' \<noteq> [] \<and>
      ?s ''lastName'' = Some ''Lee'' \<and> ''Lee'' \<noteq> [] \<and> ?s ''email'' = Some ''ann@x.org'' \<and>
      ''ann@x.org'' \<noteq> [] \<and> ?s ''password'' = Some ''hunter2'' \<and> ''hunter2'' \<noteq> [] \<and>
      fault save_fails UserFindOne = None \<and>
      find (\<lambda>u. email u = ''ann@x.org'') (users st0) = None \<and>
      fault save_fails UserSave = Some ''write refused''"
    by (simp add: sample_defs)
  from handlers_catch [of cfg0 save_fails ann_signup st0 _ _ pf0, THEN conjunct2,
      THEN conjunct2, THEN conjunct2, THEN conjunct2, THEN conjunct2, THEN conjunct2,
      THEN conjunct2, THEN conjunct1] refused
  have three: "handle pf0 cfg0 save_fails Register ann_signup st0 =
      (Responded (500, ErrorMessage (MongoError ''write refused'')),
       st0\<lparr>next_id := Suc (next_id st0), trace := trace st0 @ [UserFindOne, UserSave]\<rparr>)"
    by blast
  have ann: "x_auth_token as_ann = Some ann_token \<and>
      jwt_verify ann_token (jwt_secret cfg0) (clock count_fails) = Inr ann_claim \<and>
      fault count_fails UserFindById = None \<and>
      fault count_fails ItemCountDocuments = Some ''cursor lost''"
    by (simp add: sample_defs jwt_verify_def)
  from handlers_catch [of cfg0 count_fails as_ann registered _ _ pf0, THEN conjunct2,
      THEN conjunct2, THEN conjunct2, THEN conjunct2, THEN conjunct2, THEN conjunct2,
      THEN conjunct2, THEN conjunct2, THEN conjunct2, THEN spec, THEN spec, THEN mp,
      THEN conjunct2, THEN conjunct1, THEN spec, THEN mp, of ann_token ann_claim] ann
  have four: "handle pf0 cfg0 count_fails DashboardStats as_ann registered =
      (Responded (500, Msg ''Server Error''),
       registered\<lparr>trace := trace registered @ [UserFindById, ItemCountDocuments]\<rparr>)"
    by simp
  have upload: \<open>x_auth_token coat_upload = Some ann_token \<and>
      jwt_verify ann_token (jwt_secret cfg0) (clock save_fails) = Inr ann_claim \<and>
      image coat_upload = Inr (Some ''https://img/coat.jpg'') \<and>
      body coat_upload = Some coat_fields \<and>
      (case coat_fields ''seasons'' of None \<Rightarrow> Inr (JArr [])
       | Some s \<Rightarrow> if s = [] then Inr (JArr []) else JSON_parse pf0 s) =
        Inr (JArr [JStr ''summer'', JStr ''fall'']) \<and>
      Item_invalid_paths pf0 (coat_fields ''name'') ''https://img/coat.jpg''
        (coat_fields ''category'') (JArr [JStr ''summer'', JStr ''fall''])
        (Number pf0 (coat_fields ''warmth'')) = [] \<and>
      fault save_fails ItemSave = Some ''write refused''\<close>
    by (simp add: sample_defs jwt_verify_def Item_invalid_paths_def cast_seasons_def
        truthy_def warmth_ok_def)
  from handlers_catch [of cfg0 save_fails coat_upload registered _ _ pf0, THEN conjunct2,
      THEN conjunct2, THEN conjunct2, THEN conjunct2, THEN conjunct2, THEN conjunct2,
      THEN conjunct2, THEN conjunct2, THEN conjunct2, THEN spec, THEN spec, THEN mp,
      THEN conjunct2, THEN conjunct2, THEN conjunct2, of ann_token ann_claim] upload
  have five: "handle pf0 cfg0 save_fails CreateItem coat_upload registered =
      (Responded (500, ErrorMessage (MongoError ''write refused'')),
       registered\<lparr>next_id := Suc (next_id registered),
                  trace := trace registered @ [ItemSave]\<rparr>)"
    by blast
  from one two three four five show ?thesis
    by simp
qed

text \<open>
  The claim as written (every route answers a failure with status 500 and the raw error
  message, and no failure leaves a handler) fails on two routes when the store rejects
  the query: the dashboard answers 500 with "Server Error" instead of the error's
  message, and the error of the item listing leaves its handler, which has no try block.
\<close>

theorem handlers_catch_counterexample:
  "identity cfg0 down as_ann = Some 0 \<and>
   dashboard_stats_try down (as_ann\<lparr>user := Some ann_claim\<rparr>) st0 =
     (Inl (MongoError ''connection lost''), sent UserFindById st0) \<and>
   handle pf0 cfg0 down DashboardStats as_ann st0 =
     (Responded (500, Msg ''Server Error''), sent UserFindById st0) \<and>
   handle pf0 cfg0 down DashboardStats as_ann st0 \<noteq>
     (Responded (500, ErrorMessage (MongoError ''connection lost'')), sent UserFindById st0) \<and>
   list_items_try down (as_ann\<lparr>user := Some ann_claim\<rparr>) st0 =
     (Inl (MongoError ''connection lost''), sent ItemFind st0) \<and>
   handle pf0 cfg0 down ListItems as_ann st0 =
     (Unhandled (MongoError ''connection lost''), sent ItemFind st0)"
  by (simp add: identity_def model_defs sample_defs)

end
